theory Spec2Isabelle
  imports
    Complex_Main
    "HOL-Library.Char_ord"
    "HOL-Library.List_Lexorder"
    "HOL-Library.Sublist"
begin

section \<open>Python values and records\<close>

text \<open>
  A record is a Python dict from field names to scalar values. The five kinds of
  value of the data model are the constructors of \<open>pyval\<close>; \<open>type_of\<close> is Python's
  \<^verbatim>\<open>type(value)\<close>. The payload of a float is only carried along (no arithmetic is done
  on it), so a real number stands for it. A dict is an association list in insertion
  order; lookups read the first pair of a key.
\<close>

datatype pyval = VNone | VBool bool | VInt int | VFloat real | VStr string

datatype pytype = NoneType | TBool | TInt | TFloat | TStr

fun type_of :: "pyval \<Rightarrow> pytype" where
  "type_of VNone = NoneType"
| "type_of (VBool b) = TBool"
| "type_of (VInt i) = TInt"
| "type_of (VFloat x) = TFloat"
| "type_of (VStr s) = TStr"

type_synonym py_record = "(string \<times> pyval) list"

definition dict_keys :: "('k \<times> 'v) list \<Rightarrow> 'k list" where
  "dict_keys d = map fst d"

text \<open>\<^verbatim>\<open>record.get(key, None)\<close>\<close>

definition dict_get :: "py_record \<Rightarrow> string \<Rightarrow> pyval" where
  "dict_get d key = (case map_of d key of None \<Rightarrow> VNone | Some v \<Rightarrow> v)"

datatype error =
    OperationalError string
  | IntegrityError string
  | ProgrammingError string
  | UnboundLocalError string
  | ValueError string

section \<open>The storage engine\<close>

text \<open>
  The code formats SQL text and hands it to the connection. The statements it can
  format are the constructors of \<open>stmt\<close>, each holding the values the code substitutes
  into its template; bound parameters travel beside the statement, as in
  \<^verbatim>\<open>conn.execute(sql, values)\<close>. The last argument of \<open>InsertInto\<close> is the number of
  placeholder groups; each group has one placeholder per column. Table and column
  names are pasted into the text as they are, so they are taken to be plain identifiers.
\<close>

datatype stmt =
    CreateTable string "(string \<times> string \<times> bool) list"
  | DropTable string
  | AlterTableAddColumn string string string string string
  | InsertInto bool string "string list" nat
  | SelectTableNames
  | TableInfo string

record column_def =
  cname :: string
  ctype :: string
  cpk :: bool
  cref :: "(string \<times> string) option"

record table_data =
  tcols :: "column_def list"
  trows :: "py_record list"

type_synonym database = "(string \<times> table_data) list"

record cursor =
  rowcount :: int
  fetchall :: "pyval list list"

text \<open>
  Modelled from the spec: the storage engine (sqlite3) is an external collaborator
  and is not part of the sources. \<open>run\<close> gives the effect of one statement on a
  database, following the contract of the spec: a statement fails on malformed SQL
  (an empty column list), on a name collision, on a missing table or column, on a
  missing referenced table or column of a foreign key, and on a primary-key conflict
  without the replace policy; with the replace policy the conflicting row is deleted
  and the new row stored. A failing statement leaves the database as it was. Values
  are stored as bound (type affinity is not modelled) and a null primary key never
  conflicts. The effect of every statement is pending until the next commit, as in
  the contract of the spec; that sqlite3 itself makes a schema statement durable at
  once when no transaction is open is not modelled.
\<close>

definition placeholders :: "stmt \<Rightarrow> nat" where
  "placeholders sql =
     (case sql of InsertInto or_replace t cols n \<Rightarrow> n * length cols | _ \<Rightarrow> 0)"

fun bind_rows :: "nat \<Rightarrow> nat \<Rightarrow> 'a list \<Rightarrow> 'a list list" where
  "bind_rows w 0 vs = []"
| "bind_rows w (Suc n) vs = take w vs # bind_rows w n (drop w vs)"

definition pk_name :: "table_data \<Rightarrow> string option" where
  "pk_name td = map_option cname (find cpk (tcols td))"

definition conflicts :: "string \<Rightarrow> pyval \<Rightarrow> py_record \<Rightarrow> bool" where
  "conflicts p v old = (dict_get old p = v)"

definition insert_row :: "bool \<Rightarrow> table_data \<Rightarrow> py_record \<Rightarrow> error + table_data" where
  "insert_row or_replace td row =
     (let new = map (\<lambda>cd. (cname cd, dict_get row (cname cd))) (tcols td) in
      case pk_name td of
        None \<Rightarrow> Inr (td\<lparr>trows := trows td @ [new]\<rparr>)
      | Some p \<Rightarrow>
          if dict_get new p = VNone \<or> \<not> (\<exists>old \<in> set (trows td). conflicts p (dict_get new p) old)
          then Inr (td\<lparr>trows := trows td @ [new]\<rparr>)
          else if or_replace
          then Inr (td\<lparr>trows := filter (\<lambda>old. \<not> conflicts p (dict_get new p) old) (trows td) @ [new]\<rparr>)
          else Inl (IntegrityError ''UNIQUE constraint failed''))"

fun insert_rows :: "bool \<Rightarrow> table_data \<Rightarrow> py_record list \<Rightarrow> error + table_data" where
  "insert_rows or_replace td [] = Inr td"
| "insert_rows or_replace td (row # rows) =
     (case insert_row or_replace td row of
        Inl e \<Rightarrow> Inl e
      | Inr td' \<Rightarrow> insert_rows or_replace td' rows)"

definition update_table :: "string \<Rightarrow> table_data \<Rightarrow> database \<Rightarrow> database" where
  "update_table t td db = map (\<lambda>(n, old). if n = t then (n, td) else (n, old)) db"

definition no_rows :: cursor where
  "no_rows = \<lparr>rowcount = -1, fetchall = []\<rparr>"

definition column_info :: "column_def list \<Rightarrow> pyval list list" where
  "column_info cds =
     map (\<lambda>(cid, cd). [VInt (int cid), VStr (cname cd), VStr (ctype cd), VInt 0, VNone,
                        VInt (if cpk cd then 1 else 0)])
       (enumerate 0 cds)"

definition run :: "stmt \<Rightarrow> pyval list \<Rightarrow> database \<Rightarrow> error + (cursor \<times> database)" where
  "run sql params db =
     (if length params \<noteq> placeholders sql
      then Inl (ProgrammingError ''Incorrect number of bindings supplied'')
      else case sql of
        CreateTable t cols \<Rightarrow>
          if cols = [] then Inl (OperationalError ''syntax error'')
          else if map_of db t \<noteq> None then Inl (OperationalError ''table already exists'')
          else if \<not> distinct (map fst cols) then Inl (OperationalError ''duplicate column name'')
          else Inr (no_rows,
                 db @ [(t, \<lparr>tcols = map (\<lambda>(n, ty, pk). \<lparr>cname = n, ctype = ty, cpk = pk, cref = None\<rparr>) cols,
                           trows = []\<rparr>)])
      | DropTable t \<Rightarrow>
          if map_of db t = None then Inl (OperationalError ''no such table'')
          else Inr (no_rows, filter (\<lambda>(n, td). n \<noteq> t) db)
      | AlterTableAddColumn t col col_type other_table other_column \<Rightarrow>
          (case map_of db t of
             None \<Rightarrow> Inl (OperationalError ''no such table'')
           | Some td \<Rightarrow>
               if col \<in> set (map cname (tcols td)) then Inl (OperationalError ''duplicate column name'')
               else (case map_of db other_table of
                  None \<Rightarrow> Inl (OperationalError ''no such referenced table'')
                | Some other \<Rightarrow>
                    if other_column \<notin> set (map cname (tcols other))
                    then Inl (OperationalError ''no such referenced column'')
                    else Inr (no_rows,
                      update_table t
                        \<lparr>tcols = tcols td @ [\<lparr>cname = col, ctype = col_type, cpk = False,
                                               cref = Some (other_table, other_column)\<rparr>],
                         trows = map (\<lambda>row. row @ [(col, VNone)]) (trows td)\<rparr> db)))
      | InsertInto or_replace t cols n \<Rightarrow>
          if cols = [] \<or> n = 0 then Inl (OperationalError ''syntax error'')
          else (case map_of db t of
             None \<Rightarrow> Inl (OperationalError ''no such table'')
           | Some td \<Rightarrow>
               if \<not> set cols \<subseteq> set (map cname (tcols td)) then Inl (OperationalError ''no such column'')
               else (case insert_rows or_replace td (map (zip cols) (bind_rows (length cols) n params)) of
                  Inl e \<Rightarrow> Inl e
                | Inr td' \<Rightarrow> Inr (\<lparr>rowcount = int n, fetchall = []\<rparr>, update_table t td' db)))
      | SelectTableNames \<Rightarrow>
          Inr (\<lparr>rowcount = -1, fetchall = map (\<lambda>(n, td). [VStr n]) db\<rparr>, db)
      | TableInfo t \<Rightarrow>
          Inr (\<lparr>rowcount = -1,
                fetchall = (case map_of db t of None \<Rightarrow> [] | Some td \<Rightarrow> column_info (tcols td))\<rparr>, db))"

text \<open>
  A connection holds the state its statements have produced so far (\<open>pending\<close>), the
  state the last commit made durable (\<open>committed\<close>), and the calls it has received,
  oldest first. \<open>execute\<close> and \<open>commit\<close> are the two calls the code makes.
\<close>

datatype call = Execute stmt "pyval list" | Commit

record conn =
  pending :: database
  committed :: database
  journal :: "call list"

definition execute :: "conn \<Rightarrow> stmt \<Rightarrow> pyval list \<Rightarrow> (error + cursor) \<times> conn" where
  "execute c sql params =
     (let c1 = c\<lparr>journal := journal c @ [Execute sql params]\<rparr> in
      case run sql params (pending c) of
        Inl e \<Rightarrow> (Inl e, c1)
      | Inr (cur, db') \<Rightarrow> (Inr cur, c1\<lparr>pending := db'\<rparr>))"

definition commit :: "conn \<Rightarrow> conn" where
  "commit c = c\<lparr>committed := pending c, journal := journal c @ [Commit]\<rparr>"

section \<open>Database and Table\<close>

text \<open>
  A \<^verbatim>\<open>Database\<close> object only wraps its connection, so the connection state stands for
  it. A \<^verbatim>\<open>Table\<close> object has the fields \<open>name\<close> and \<open>exists\<close> (and a reference to its
  database, which is passed as the connection state). A method that can raise returns
  \<open>Inl\<close> of the error together with the state at the moment of the exception.
\<close>

record table =
  name :: string
  exists :: bool

type_synonym foreign_key = "string \<times> string \<times> string \<times> string"

text \<open>\<^verbatim>\<open>Database.tables\<close>: the first field of every row of the table list.\<close>

definition tables :: "conn \<Rightarrow> (error + pyval list) \<times> conn" where
  "tables c =
     (case execute c SelectTableNames [] of
        (Inl e, c') \<Rightarrow> (Inl e, c')
      | (Inr cur, c') \<Rightarrow> (Inr (map hd (fetchall cur)), c'))"

text \<open>\<^verbatim>\<open>Table.__init__\<close>, which \<^verbatim>\<open>Database.__getitem__\<close> calls.\<close>

definition Table :: "string \<Rightarrow> conn \<Rightarrow> (error + table) \<times> conn" where
  "Table nm c =
     (case tables c of
        (Inl e, c') \<Rightarrow> (Inl e, c')
      | (Inr ts, c') \<Rightarrow> (Inr \<lparr>name = nm, exists = (VStr nm \<in> set ts)\<rparr>, c'))"

text \<open>The dict literal of \<^verbatim>\<open>create_table\<close> from Python types to type keywords.\<close>

fun sql_type :: "pytype \<Rightarrow> string" where
  "sql_type TFloat = ''FLOAT''"
| "sql_type TInt = ''INTEGER''"
| "sql_type TBool = ''INTEGER''"
| "sql_type TStr = ''TEXT''"
| "sql_type NoneType = ''TEXT''"

definition create_table ::
  "string \<Rightarrow> (string \<times> pytype) list \<Rightarrow> string option \<Rightarrow> conn \<Rightarrow> (error + table) \<times> conn" where
  "create_table nm columns pk c =
     (let sql = CreateTable nm
                  (map (\<lambda>(col_name, col_type). (col_name, sql_type col_type, pk = Some col_name))
                     columns)
      in case execute c sql [] of
           (Inl e, c') \<Rightarrow> (Inl e, c')
         | (Inr cur, c') \<Rightarrow> Table nm c')"

text \<open>
  \<^verbatim>\<open>Table.columns\<close>: one row of six fields per column (the code wraps each row in a
  \<^verbatim>\<open>Column\<close> named tuple).
\<close>

definition columns :: "table \<Rightarrow> conn \<Rightarrow> (error + pyval list list) \<times> conn" where
  "columns self c =
     (if \<not> exists self then (Inr [], c)
      else case execute c (TableInfo (name self)) [] of
             (Inl e, c') \<Rightarrow> (Inl e, c')
           | (Inr cur, c') \<Rightarrow> (Inr (fetchall cur), c'))"

definition drop_table :: "table \<Rightarrow> conn \<Rightarrow> (error + cursor) \<times> conn" where
  "drop_table self c = execute c (DropTable (name self)) []"

definition add_foreign_key ::
  "table \<Rightarrow> string \<Rightarrow> string \<Rightarrow> string \<Rightarrow> string \<Rightarrow> conn \<Rightarrow> (error + cursor) \<times> conn" where
  "add_foreign_key self column column_type other_table other_column c =
     (let sql = AlterTableAddColumn (name self) column column_type other_table other_column
      in case execute c sql [] of
           (Inl e, c') \<Rightarrow> (Inl e, c')
         | (Inr result, c') \<Rightarrow> (Inr result, commit c'))"

text \<open>The loop \<^verbatim>\<open>for args in foreign_keys: self.add_foreign_key(*args)\<close> of \<^verbatim>\<open>create\<close>.\<close>

fun add_foreign_keys :: "table \<Rightarrow> foreign_key list \<Rightarrow> conn \<Rightarrow> (error + unit) \<times> conn" where
  "add_foreign_keys self [] c = (Inr (), c)"
| "add_foreign_keys self ((column, column_type, other_table, other_column) # rest) c =
     (case add_foreign_key self column column_type other_table other_column c of
        (Inl e, c') \<Rightarrow> (Inl e, c')
      | (Inr result, c') \<Rightarrow> add_foreign_keys self rest c')"

definition create ::
  "table \<Rightarrow> (string \<times> pytype) list \<Rightarrow> string option \<Rightarrow> foreign_key list option \<Rightarrow> conn
     \<Rightarrow> (error + unit) \<times> table \<times> conn" where
  "create self cols pk foreign_keys c =
     (let fks = (case foreign_keys of None \<Rightarrow> [] | Some l \<Rightarrow> l);
          cols' = filter (\<lambda>(nm, value). nm \<notin> set (map fst fks)) cols
      in case create_table (name self) cols' pk c of
           (Inl e, c1) \<Rightarrow> (Inl e, self, c1)
         | (Inr t, c1) \<Rightarrow>
             (case add_foreign_keys self fks c1 of
                (Inl e, c2) \<Rightarrow> (Inl e, self, c2)
              | (Inr u, c2) \<Rightarrow> (Inr (), self\<lparr>exists := True\<rparr>, c2)))"

section \<open>Type detection\<close>

text \<open>
  \<^verbatim>\<open>all_column_types.setdefault(key, set()).add(t)\<close> on a dict in insertion order.
\<close>

fun setdefault_add ::
  "(string \<times> pytype set) list \<Rightarrow> string \<Rightarrow> pytype \<Rightarrow> (string \<times> pytype set) list" where
  "setdefault_add [] key t = [(key, {t})]"
| "setdefault_add ((k, ts) # d) key t =
     (if k = key then (k, insert t ts) # d else (k, ts) # setdefault_add d key t)"

definition all_column_types :: "py_record list \<Rightarrow> (string \<times> pytype set) list" where
  "all_column_types records =
     fold (\<lambda>record acc. fold (\<lambda>(key, value) acc. setdefault_add acc key (type_of value)) record acc)
       records []"

text \<open>The \<^verbatim>\<open>if/elif\<close> chain that reduces the set of types seen for one key.\<close>

definition reduce_types :: "pytype set \<Rightarrow> pytype" where
  "reduce_types types =
     (if card types = 1 then the_elem types
      else if types \<subseteq> {TInt, TBool} then TInt
      else if types \<subseteq> {TInt, TFloat, TBool} then TFloat
      else TStr)"

definition detect_column_types :: "py_record list \<Rightarrow> (string \<times> pytype) list" where
  "detect_column_types records =
     map (\<lambda>(key, types). (key, reduce_types types)) (all_column_types records)"

section \<open>Batched writes\<close>

text \<open>\<^verbatim>\<open>range(0, stop, step)\<close> for a step other than 0, and \<^verbatim>\<open>chunks\<close>.\<close>

definition range0 :: "nat \<Rightarrow> int \<Rightarrow> nat list" where
  "range0 stop step =
     (if 0 < step then map (\<lambda>k. k * nat step) [0..<(stop + nat step - 1) div nat step] else [])"

definition chunks :: "'a list \<Rightarrow> int \<Rightarrow> error + 'a list list" where
  "chunks sequence sz =
     (if sz = 0 then Inl (ValueError ''range() arg 3 must not be zero'')
      else Inr (map (\<lambda>i. take (nat sz) (drop i sequence)) (range0 (length sequence) sz)))"

text \<open>
  The body of the loop over the chunks. \<open>result\<close> is the local variable of that name:
  \<open>None\<close> until the first chunk has been executed.
\<close>

fun insert_chunks ::
  "table \<Rightarrow> bool \<Rightarrow> string list \<Rightarrow> py_record list list \<Rightarrow> cursor option \<Rightarrow> conn
     \<Rightarrow> (error + cursor option) \<times> conn" where
  "insert_chunks self upsert all_columns [] result c = (Inr result, c)"
| "insert_chunks self upsert all_columns (chunk # rest) result c =
     (let sql = InsertInto upsert (name self) all_columns (length chunk);
          values = concat (map (\<lambda>record. map (\<lambda>key. dict_get record key) all_columns) chunk)
      in case execute c sql values of
           (Inl e, c') \<Rightarrow> (Inl e, c')
         | (Inr result', c') \<Rightarrow> insert_chunks self upsert all_columns rest (Some result') (commit c'))"

definition all_columns_of :: "py_record list \<Rightarrow> string list" where
  "all_columns_of records =
     sorted_list_of_set (fold (\<lambda>record acc. acc \<union> set (dict_keys record)) records {})"

definition insert_all ::
  "table \<Rightarrow> py_record list \<Rightarrow> string option \<Rightarrow> foreign_key list option \<Rightarrow> bool \<Rightarrow> int \<Rightarrow> conn
     \<Rightarrow> (error + cursor) \<times> table \<times> conn" where
  "insert_all self records pk foreign_keys upsert batch_size c =
     (case (if \<not> exists self then create self (detect_column_types records) pk foreign_keys c
            else (Inr (), self, c)) of
        (Inl e, self1, c1) \<Rightarrow> (Inl e, self1, c1)
      | (Inr u, self1, c1) \<Rightarrow>
          (case chunks records batch_size of
             Inl e \<Rightarrow> (Inl e, self1, c1)
           | Inr cs \<Rightarrow>
               (case insert_chunks self1 upsert (all_columns_of records) cs None c1 of
                  (Inl e, c2) \<Rightarrow> (Inl e, self1, c2)
                | (Inr None, c2) \<Rightarrow>
                    (Inl (UnboundLocalError ''local variable result referenced before assignment''),
                     self1, c2)
                | (Inr (Some result), c2) \<Rightarrow> (Inr result, self1, c2))))"

definition insert_record ::
  "table \<Rightarrow> py_record \<Rightarrow> string option \<Rightarrow> foreign_key list option \<Rightarrow> bool \<Rightarrow> conn
     \<Rightarrow> (error + cursor) \<times> table \<times> conn" where
  "insert_record self record pk foreign_keys upsert c =
     insert_all self [record] pk foreign_keys upsert 100 c"

definition upsert ::
  "table \<Rightarrow> py_record \<Rightarrow> string option \<Rightarrow> foreign_key list option \<Rightarrow> conn
     \<Rightarrow> (error + cursor) \<times> table \<times> conn" where
  "upsert self record pk foreign_keys c = insert_record self record pk foreign_keys True c"

definition upsert_all ::
  "table \<Rightarrow> py_record list \<Rightarrow> string option \<Rightarrow> foreign_key list option \<Rightarrow> conn
     \<Rightarrow> (error + cursor) \<times> table \<times> conn" where
  "upsert_all self records pk foreign_keys c = insert_all self records pk foreign_keys True 100 c"

section \<open>Observed kinds\<close>

text \<open>
  The kinds of value observed for a field: the types of the values that any record of
  the collection holds under that key. A record without the key contributes nothing.
\<close>

definition observed_kinds :: "py_record list \<Rightarrow> string \<Rightarrow> pytype set" where
  "observed_kinds records key =
     set (map (\<lambda>(k, v). type_of v) (filter (\<lambda>(k, v). k = key) (concat records)))"

section \<open>Programs over several handles\<close>

text \<open>
  Handles are objects: several of them can name the same table and all of them share
  the connection. A \<open>world\<close> holds the connection and the handles made so far, a handle
  being identified by its position. An \<open>action\<close> is one call of a method of
  \<^verbatim>\<open>Database\<close> or \<^verbatim>\<open>Table\<close>; \<open>step\<close> performs it and keeps the state it leaves behind,
  whether it returned or raised. An action on a handle that was never made does nothing.
\<close>

record world =
  db :: conn
  handles :: "table list"

datatype action =
    GetItem string
  | DbCreateTable string "(string \<times> pytype) list" "string option"
  | Columns nat
  | Create nat "(string \<times> pytype) list" "string option" "foreign_key list option"
  | Drop nat
  | AddForeignKey nat string string string string
  | Insert nat py_record "string option" "foreign_key list option" bool
  | InsertAll nat "py_record list" "string option" "foreign_key list option" bool int
  | Upsert nat py_record "string option" "foreign_key list option"
  | UpsertAll nat "py_record list" "string option" "foreign_key list option"

definition new_handle :: "(error + table) \<times> conn \<Rightarrow> world \<Rightarrow> world" where
  "new_handle r w =
     (case r of
        (Inl e, c') \<Rightarrow> w\<lparr>db := c'\<rparr>
      | (Inr h, c') \<Rightarrow> \<lparr>db = c', handles = handles w @ [h]\<rparr>)"

definition on_handle ::
  "nat \<Rightarrow> (table \<Rightarrow> conn \<Rightarrow> 'a \<times> table \<times> conn) \<Rightarrow> world \<Rightarrow> world" where
  "on_handle i m w =
     (if i < length (handles w)
      then (case m (handles w ! i) (db w) of
              (r, h', c') \<Rightarrow> \<lparr>db = c', handles = (handles w)[i := h']\<rparr>)
      else w)"

definition keep_self :: "(table \<Rightarrow> conn \<Rightarrow> 'a \<times> conn) \<Rightarrow> table \<Rightarrow> conn \<Rightarrow> 'a \<times> table \<times> conn" where
  "keep_self m self c = (case m self c of (r, c') \<Rightarrow> (r, self, c'))"

fun step :: "action \<Rightarrow> world \<Rightarrow> world" where
  "step (GetItem nm) w = new_handle (Table nm (db w)) w"
| "step (DbCreateTable nm cols pk) w = new_handle (create_table nm cols pk (db w)) w"
| "step (Columns i) w = on_handle i (keep_self columns) w"
| "step (Create i cols pk fks) w = on_handle i (\<lambda>self. create self cols pk fks) w"
| "step (Drop i) w = on_handle i (keep_self drop_table) w"
| "step (AddForeignKey i col col_type other_table other_column) w =
     on_handle i (keep_self (\<lambda>self. add_foreign_key self col col_type other_table other_column)) w"
| "step (Insert i r pk fks ups) w = on_handle i (\<lambda>self. insert_record self r pk fks ups) w"
| "step (InsertAll i rs pk fks ups batch_size) w =
     on_handle i (\<lambda>self. insert_all self rs pk fks ups batch_size) w"
| "step (Upsert i r pk fks) w = on_handle i (\<lambda>self. upsert self r pk fks) w"
| "step (UpsertAll i rs pk fks) w = on_handle i (\<lambda>self. upsert_all self rs pk fks) w"

text \<open>
  The table creation that an action performs on a handle in the absent state, if it
  performs one: the handle, the column mapping, the primary key and the foreign keys.
\<close>

fun creation_of ::
  "action \<Rightarrow> (nat \<times> (string \<times> pytype) list \<times> string option \<times> foreign_key list option) option" where
  "creation_of (Create i cols pk fks) = Some (i, cols, pk, fks)"
| "creation_of (Insert i r pk fks ups) = Some (i, detect_column_types [r], pk, fks)"
| "creation_of (InsertAll i rs pk fks ups batch_size) = Some (i, detect_column_types rs, pk, fks)"
| "creation_of (Upsert i r pk fks) = Some (i, detect_column_types [r], pk, fks)"
| "creation_of (UpsertAll i rs pk fks) = Some (i, detect_column_types rs, pk, fks)"
| "creation_of a = None"

section \<open>Calls made for a chunk\<close>

text \<open>
  The call that the loop of \<open>insert_all\<close> makes for one chunk: a single statement with
  one placeholder group per record of the chunk, and the values of all the records in
  one flat list.
\<close>

definition insert_call :: "bool \<Rightarrow> string \<Rightarrow> string list \<Rightarrow> py_record list \<Rightarrow> call" where
  "insert_call ups t cols chunk =
     Execute (InsertInto ups t cols (length chunk))
       (concat (map (\<lambda>record. map (\<lambda>key. dict_get record key) cols) chunk))"


section \<open>Calls made for foreign keys\<close>

text \<open>
  The calls that \<open>add_foreign_key\<close> makes for a list of foreign keys when each of them
  succeeds, and the column that the engine adds for a foreign key.
\<close>

definition foreign_key_calls :: "string \<Rightarrow> foreign_key list \<Rightarrow> call list" where
  "foreign_key_calls t fks =
     concat (map (\<lambda>(col, ty, ot, oc). [Execute (AlterTableAddColumn t col ty ot oc) [], Commit]) fks)"

definition foreign_key_column :: "foreign_key \<Rightarrow> column_def" where
  "foreign_key_column fk =
     (case fk of (col, ty, ot, oc) \<Rightarrow> \<lparr>cname = col, ctype = ty, cpk = False, cref = Some (ot, oc)\<rparr>)"

section \<open>Unfolding the engine\<close>

lemmas engine_defs =
  execute_def run_def placeholders_def commit_def insert_row_def pk_name_def conflicts_def
  dict_get_def update_table_def no_rows_def

section \<open>Empty batches\<close>

lemma range0_empty: "range0 0 sz = []"
  by (simp add: range0_def)

lemma chunks_empty:
  "chunks [] sz = (if sz = 0 then Inl (ValueError ''range() arg 3 must not be zero'') else Inr [])"
  by (simp add: chunks_def range0_empty)

lemma detect_column_types_empty: "detect_column_types [] = []"
  by (simp add: detect_column_types_def all_column_types_def)

lemma create_table_no_columns:
  "create_table nm [] pk c =
     (Inl (OperationalError ''syntax error''),
      c\<lparr>journal := journal c @ [Execute (CreateTable nm []) []]\<rparr>)"
  by (simp add: create_table_def execute_def run_def placeholders_def)

text \<open>
  Claim C10. On a handle whose table is present, \<open>insert_all\<close> with an empty list of
  records raises an error instead of returning a result: the loop over the chunks runs
  zero times, so the variable \<open>result\<close> is unbound when it is returned (and a batch size
  of 0 makes \<^verbatim>\<open>range\<close> raise first). Nothing is sent to the connection: the handle and
  the connection, with both its states and its journal, are as before.
\<close>

theorem insert_all_empty_present:
  "exists self \<Longrightarrow>
   insert_all self [] pk foreign_keys ups batch_size c =
     (Inl (if batch_size = 0 then ValueError ''range() arg 3 must not be zero''
           else UnboundLocalError ''local variable result referenced before assignment''),
      self, c)"
  by (simp add: insert_all_def chunks_empty)

text \<open>Witness for C10: a present table with one row and the default batch size.\<close>

theorem insert_all_empty_present_witness:
  "exists \<lparr>name = ''t'', exists = True\<rparr> \<and>
   insert_all \<lparr>name = ''t'', exists = True\<rparr> [] None None False 100
       \<lparr>pending = [(''t'', \<lparr>tcols = [\<lparr>cname = ''a'', ctype = ''TEXT'', cpk = False, cref = None\<rparr>],
                             trows = [[(''a'', VStr ''x'')]]\<rparr>)],
        committed = [], journal = []\<rparr> =
     (Inl (UnboundLocalError ''local variable result referenced before assignment''),
      \<lparr>name = ''t'', exists = True\<rparr>,
      \<lparr>pending = [(''t'', \<lparr>tcols = [\<lparr>cname = ''a'', ctype = ''TEXT'', cpk = False, cref = None\<rparr>],
                             trows = [[(''a'', VStr ''x'')]]\<rparr>)],
        committed = [], journal = []\<rparr>)"
  using insert_all_empty_present [of "\<lparr>name = ''t'', exists = True\<rparr>" None None False 100]
  by simp

text \<open>
  Claim C2, as stated, fails: on a handle in the absent state and a fresh database,
  \<open>insert_all\<close> with an empty list of records does raise an error. The type detection
  yields no column, and the table creation with an empty column list is rejected.
\<close>

theorem insert_all_empty_absent_counterexample:
  "fst (insert_all \<lparr>name = ''t'', exists = False\<rparr> [] None None False 100
         \<lparr>pending = [], committed = [], journal = []\<rparr>) =
     Inl (OperationalError ''syntax error'')"
  by (simp add: insert_all_def create_def detect_column_types_empty create_table_no_columns)

text \<open>
  Claim C2, amended. On a handle in the absent state, \<open>insert_all\<close> with an empty list
  of records creates no table, writes nothing and leaves the handle absent, but it
  raises an error: the only call it makes is a table creation with an empty column
  list, which the engine rejects. Both states of the connection are as before.
\<close>

theorem insert_all_empty_absent:
  "\<not> exists self \<Longrightarrow>
   insert_all self [] pk foreign_keys ups batch_size c =
     (Inl (OperationalError ''syntax error''), self,
      c\<lparr>journal := journal c @ [Execute (CreateTable (name self) []) []]\<rparr>)"
  by (simp add: insert_all_def create_def detect_column_types_empty create_table_no_columns)

text \<open>Witness for the amended C2: a fresh database.\<close>

theorem insert_all_empty_absent_witness:
  "\<not> exists \<lparr>name = ''t'', exists = False\<rparr> \<and>
   insert_all \<lparr>name = ''t'', exists = False\<rparr> [] None None False 100
       \<lparr>pending = [], committed = [], journal = []\<rparr> =
     (Inl (OperationalError ''syntax error''), \<lparr>name = ''t'', exists = False\<rparr>,
      \<lparr>pending = [], committed = [], journal = [Execute (CreateTable ''t'' []) []]\<rparr>)"
  using insert_all_empty_absent [of "\<lparr>name = ''t'', exists = False\<rparr>" None None False 100
      "\<lparr>pending = [], committed = [], journal = []\<rparr>"]
  by simp

section \<open>Type detection\<close>

lemma setdefault_add_keys:
  "map fst (setdefault_add d k t) = (if k \<in> set (map fst d) then map fst d else map fst d @ [k])"
  by (induction d k t rule: setdefault_add.induct) auto

lemma setdefault_add_dom: "fst ` set (setdefault_add d k t) = insert k (fst ` set d)"
  by (induction d k t rule: setdefault_add.induct) auto

lemma map_of_setdefault_add:
  "map_of (setdefault_add d k t) k' =
     (if k' = k then Some (insert t (case map_of d k of None \<Rightarrow> {} | Some ts \<Rightarrow> ts))
      else map_of d k')"
  by (induction d k t rule: setdefault_add.induct) auto

lemma fold_fold_concat:
  "fold (\<lambda>record acc. fold f record acc) records acc = fold f (concat records) acc"
  by (induction records arbitrary: acc) auto

lemma fold_setdefault_distinct:
  "distinct (map fst acc) \<Longrightarrow>
   distinct (map fst (fold (\<lambda>(key, value) acc. setdefault_add acc key (type_of value)) ps acc))"
  by (induction ps arbitrary: acc) (auto simp: setdefault_add_keys)

lemma fold_setdefault_set:
  "fst ` set (fold (\<lambda>(key, value) acc. setdefault_add acc key (type_of value)) ps acc) =
     fst ` set acc \<union> fst ` set ps"
proof (induction ps arbitrary: acc)
  case Nil
  show ?case by simp
next
  case (Cons p ps)
  obtain key v where p: "p = (key, v)" by (cases p)
  show ?case
    unfolding p by (simp add: Cons.IH setdefault_add_dom)
qed

lemma fold_setdefault_map_of:
  "map_of (fold (\<lambda>(key, value) acc. setdefault_add acc key (type_of value)) ps acc) k =
     (if k \<in> fst ` set ps \<or> map_of acc k \<noteq> None
      then Some (set (map (\<lambda>(k, v). type_of v) (filter (\<lambda>(k', v). k' = k) ps))
                  \<union> (case map_of acc k of None \<Rightarrow> {} | Some ts \<Rightarrow> ts))
      else None)"
proof (induction ps arbitrary: acc)
  case Nil
  then show ?case by (auto split: option.splits)
next
  case (Cons p ps)
  obtain key v where p: "p = (key, v)" by (cases p)
  show ?case
    unfolding p
    by (simp add: Cons.IH map_of_setdefault_add image_iff split: option.splits)
qed

lemma detect_keys: "map fst (detect_column_types records) = map fst (all_column_types records)"
  by (simp add: detect_column_types_def case_prod_unfold comp_def)

lemma all_column_types_flat:
  "all_column_types records =
     fold (\<lambda>(key, value) acc. setdefault_add acc key (type_of value)) (concat records) []"
  by (simp add: all_column_types_def fold_fold_concat)

lemma map_of_detect:
  "map_of (detect_column_types records) key =
     map_option reduce_types (map_of (all_column_types records) key)"
  by (simp add: detect_column_types_def map_of_map)

text \<open>
  Claim C1. For every collection of records, \<open>detect_column_types\<close> has exactly one
  entry for each field name that occurs in some record and none for any other, and the
  entry of a field is the reduction of the kinds observed for it. The reduction follows
  the widening table: \<open>{integer}\<close> gives integer; \<open>{integer, boolean}\<close> integer;
  \<open>{integer, float}\<close> float; \<open>{integer, boolean, float}\<close> float; \<open>{text}\<close> text;
  \<open>{integer, text}\<close> text; \<open>{null, integer}\<close> text; and a single observed kind gives
  that kind itself, which the table creation writes with the keyword of \<open>sql_type\<close>:
  \<open>INTEGER\<close> for boolean (and \<open>TEXT\<close> for null).
\<close>

theorem detect_column_types_widening:
  "distinct (map fst (detect_column_types records)) \<and>
   set (map fst (detect_column_types records)) = (\<Union>record \<in> set records. set (dict_keys record)) \<and>
   (\<forall>key \<in> (\<Union>record \<in> set records. set (dict_keys record)).
      map_of (detect_column_types records) key = Some (reduce_types (observed_kinds records key))) \<and>
   reduce_types {TInt} = TInt \<and> sql_type TInt = ''INTEGER'' \<and>
   reduce_types {TInt, TBool} = TInt \<and>
   reduce_types {TInt, TFloat} = TFloat \<and> sql_type TFloat = ''FLOAT'' \<and>
   reduce_types {TInt, TBool, TFloat} = TFloat \<and>
   reduce_types {TStr} = TStr \<and> sql_type TStr = ''TEXT'' \<and>
   reduce_types {TInt, TStr} = TStr \<and>
   reduce_types {NoneType, TInt} = TStr \<and>
   (\<forall>t. reduce_types {t} = t) \<and> sql_type TBool = ''INTEGER'' \<and> sql_type NoneType = ''TEXT''"
proof -
  have d: "distinct (map fst (detect_column_types records))"
    by (simp add: detect_keys all_column_types_flat fold_setdefault_distinct)
  have s: "set (map fst (detect_column_types records)) =
      (\<Union>record \<in> set records. set (dict_keys record))"
    by (simp add: detect_keys all_column_types_flat fold_setdefault_set dict_keys_def image_UN)
  have m: "map_of (detect_column_types records) key =
      Some (reduce_types (observed_kinds records key))"
    if "key \<in> (\<Union>record \<in> set records. set (dict_keys record))" for key
  proof -
    from that have "key \<in> fst ` set (concat records)"
      by (auto simp: dict_keys_def)
    then show ?thesis
      by (simp add: map_of_detect all_column_types_flat fold_setdefault_map_of observed_kinds_def)
  qed
  have t: "reduce_types {TInt} = TInt" "reduce_types {TInt, TBool} = TInt"
    "reduce_types {TInt, TFloat} = TFloat" "reduce_types {TInt, TBool, TFloat} = TFloat"
    "reduce_types {TStr} = TStr" "reduce_types {TInt, TStr} = TStr"
    "reduce_types {NoneType, TInt} = TStr" "\<forall>t. reduce_types {t} = t"
    by (simp_all add: reduce_types_def)
  show ?thesis
    using d s m t by simp
qed

text \<open>
  Witness for C1: two records with different key sets; \<open>a\<close> is seen as integer and
  float, \<open>b\<close> as null and integer, \<open>c\<close> as boolean only.
\<close>

theorem detect_column_types_widening_witness:
  "detect_column_types
     [[(''a'', VInt 1), (''b'', VNone), (''c'', VBool True)], [(''a'', VFloat 2), (''b'', VInt 3)]] =
     [(''a'', TFloat), (''b'', TStr), (''c'', TBool)] \<and>
   map_of (detect_column_types
     [[(''a'', VInt 1), (''b'', VNone), (''c'', VBool True)], [(''a'', VFloat 2), (''b'', VInt 3)]]) ''b'' =
     Some (reduce_types {NoneType, TInt})"
proof -
  let ?rs = "[[(''a'', VInt 1), (''b'', VNone), (''c'', VBool True)], [(''a'', VFloat 2), (''b'', VInt 3)]]"
  have k: "''b'' \<in> (\<Union>record \<in> set ?rs. set (dict_keys record))"
    by (simp add: dict_keys_def)
  have o: "observed_kinds ?rs ''b'' = {NoneType, TInt}"
    by (simp add: observed_kinds_def)
  have e: "detect_column_types ?rs = [(''a'', TFloat), (''b'', TStr), (''c'', TBool)]"
    by (simp add: detect_column_types_def all_column_types_def reduce_types_def)
  from detect_column_types_widening [of ?rs] k o e show ?thesis
    by simp
qed

section \<open>The cached existence flag\<close>

lemma create_handle:
  "create self cols pk fks c = (r, h', c') \<Longrightarrow>
     (r = Inr () \<and> h' = self\<lparr>exists := True\<rparr>) \<or> ((\<exists>e. r = Inl e) \<and> h' = self)"
  by (auto simp: create_def Let_def split: prod.splits sum.splits)

lemma insert_all_handle:
  "insert_all self rs pk fks ups bs c = (r, h', c') \<Longrightarrow>
     (if exists self then h' = self
      else h' = fst (snd (create self (detect_column_types rs) pk fks c)))"
  by (auto simp: insert_all_def split: prod.splits sum.splits option.splits if_splits)

lemma insert_all_exists:
  "insert_all self rs pk fks ups bs c = (r, h', c') \<Longrightarrow> exists self \<Longrightarrow> exists h'"
  by (drule insert_all_handle) simp

lemma insert_all_created:
  assumes "insert_all self rs pk fks ups bs c = (r, h', c')" "\<not> exists self" "exists h'"
  shows "fst (create self (detect_column_types rs) pk fks c) = Inr ()"
proof -
  obtain r1 h1 c1 where c: "create self (detect_column_types rs) pk fks c = (r1, h1, c1)"
    by (cases "create self (detect_column_types rs) pk fks c") auto
  from insert_all_handle [OF assms(1)] assms(2) c have "h' = h1" by simp
  with create_handle [OF c] assms(2,3) show ?thesis
    using c by auto
qed

lemma on_handle_length: "length (handles (on_handle i m w)) = length (handles w)"
  by (simp add: on_handle_def split: prod.splits)

lemma on_handle_other:
  "j \<noteq> i \<Longrightarrow> handles (on_handle i m w) ! j = handles w ! j"
  by (simp add: on_handle_def split: prod.splits)

lemma on_handle_same:
  "i < length (handles w) \<Longrightarrow>
   handles (on_handle i m w) ! i = fst (snd (m (handles w ! i) (db w)))"
  by (simp add: on_handle_def split: prod.splits)

lemma on_handle_keep_self: "handles (on_handle i (keep_self m) w) = handles w"
  by (simp add: on_handle_def keep_self_def split: prod.splits)

lemma new_handle_old:
  "j < length (handles w) \<Longrightarrow>
   j < length (handles (new_handle r w)) \<and> handles (new_handle r w) ! j = handles w ! j"
  by (auto simp: new_handle_def nth_append split: prod.splits sum.splits)

lemma step_length: "i < length (handles w) \<Longrightarrow> i < length (handles (step a w))"
  by (cases a) (simp_all add: on_handle_length new_handle_old)

lemma step_exists:
  assumes "i < length (handles w)" "exists (handles w ! i)"
  shows "exists (handles (step a w) ! i)"
proof -
  have mono: "exists (handles (on_handle j m w) ! i)"
    if "\<And>self c r h' c'. m self c = (r, h', c') \<Longrightarrow> exists self \<Longrightarrow> exists h'" for j and m :: "table \<Rightarrow> conn \<Rightarrow> (error + 'a) \<times> table \<times> conn"
  proof (cases "j = i")
    case True
    obtain r h' c' where m: "m (handles w ! i) (db w) = (r, h', c')"
      by (cases "m (handles w ! i) (db w)") auto
    from that [OF m assms(2)] show ?thesis
      using True assms(1) m by (simp add: on_handle_same)
  next
    case False
    then show ?thesis using assms(2) by (simp add: on_handle_other)
  qed
  show ?thesis
  proof (cases a)
    case (Create j cols pk fks)
    have "exists (handles (on_handle j (\<lambda>self. create self cols pk fks) w) ! i)"
      by (rule mono) (auto dest: create_handle)
    then show ?thesis using Create by simp
  next
    case (Insert j r pk fks ups)
    have "exists (handles (on_handle j (\<lambda>self. insert_record self r pk fks ups) w) ! i)"
      by (rule mono) (auto simp: insert_record_def dest: insert_all_exists)
    then show ?thesis using Insert by simp
  next
    case (InsertAll j rs pk fks ups bs)
    have "exists (handles (on_handle j (\<lambda>self. insert_all self rs pk fks ups bs) w) ! i)"
      by (rule mono) (auto dest: insert_all_exists)
    then show ?thesis using InsertAll by simp
  next
    case (Upsert j r pk fks)
    have "exists (handles (on_handle j (\<lambda>self. upsert self r pk fks) w) ! i)"
      by (rule mono) (auto simp: upsert_def insert_record_def dest: insert_all_exists)
    then show ?thesis using Upsert by simp
  next
    case (UpsertAll j rs pk fks)
    have "exists (handles (on_handle j (\<lambda>self. upsert_all self rs pk fks) w) ! i)"
      by (rule mono) (auto simp: upsert_all_def dest: insert_all_exists)
    then show ?thesis using UpsertAll by simp
  qed (use assms in \<open>simp_all add: new_handle_old on_handle_keep_self\<close>)
qed

lemma steps_exists:
  "i < length (handles w) \<Longrightarrow> exists (handles w ! i) \<Longrightarrow>
   i < length (handles (fold step acts w)) \<and> exists (handles (fold step acts w) ! i)"
  by (induction acts arbitrary: w) (simp_all add: step_length step_exists)

lemma step_sets_flag:
  assumes "i < length (handles w)" "\<not> exists (handles w ! i)" "exists (handles (step a w) ! i)"
  shows "\<exists>cols pk fks. creation_of a = Some (i, cols, pk, fks) \<and>
           fst (create (handles w ! i) cols pk fks (db w)) = Inr ()"
proof -
  have same: "j = i" if "exists (handles (on_handle j m w) ! i)" for j and m :: "table \<Rightarrow> conn \<Rightarrow> (error + 'a) \<times> table \<times> conn"
    using that assms(2) by (cases "j = i") (simp_all add: on_handle_other)
  show ?thesis
  proof (cases a)
    case (Create j cols pk fks)
    with assms(3) have j: "j = i" by (auto dest: same)
    obtain r h' c' where m: "create (handles w ! i) cols pk fks (db w) = (r, h', c')"
      by (cases "create (handles w ! i) cols pk fks (db w)") auto
    from assms Create j m have "exists h'" by (simp add: on_handle_same)
    with create_handle [OF m] assms(2) have "r = Inr ()" by auto
    then show ?thesis using Create j m by simp
  next
    case (Insert j r pk fks ups)
    with assms(3) have j: "j = i" by (auto dest: same)
    obtain res h' c' where m: "insert_all (handles w ! i) [r] pk fks ups 100 (db w) = (res, h', c')"
      by (cases "insert_all (handles w ! i) [r] pk fks ups 100 (db w)") auto
    from assms Insert j m have "exists h'" by (simp add: on_handle_same insert_record_def)
    from insert_all_created [OF m assms(2) this] show ?thesis using Insert j by simp
  next
    case (InsertAll j rs pk fks ups bs)
    with assms(3) have j: "j = i" by (auto dest: same)
    obtain res h' c' where m: "insert_all (handles w ! i) rs pk fks ups bs (db w) = (res, h', c')"
      by (cases "insert_all (handles w ! i) rs pk fks ups bs (db w)") auto
    from assms InsertAll j m have "exists h'" by (simp add: on_handle_same)
    from insert_all_created [OF m assms(2) this] show ?thesis using InsertAll j by simp
  next
    case (Upsert j r pk fks)
    with assms(3) have j: "j = i" by (auto dest: same)
    obtain res h' c' where m: "insert_all (handles w ! i) [r] pk fks True 100 (db w) = (res, h', c')"
      by (cases "insert_all (handles w ! i) [r] pk fks True 100 (db w)") auto
    from assms Upsert j m have "exists h'" by (simp add: on_handle_same insert_record_def upsert_def)
    from insert_all_created [OF m assms(2) this] show ?thesis using Upsert j by simp
  next
    case (UpsertAll j rs pk fks)
    with assms(3) have j: "j = i" by (auto dest: same)
    obtain res h' c' where m: "insert_all (handles w ! i) rs pk fks True 100 (db w) = (res, h', c')"
      by (cases "insert_all (handles w ! i) rs pk fks True 100 (db w)") auto
    from assms UpsertAll j m have "exists h'" by (simp add: on_handle_same upsert_all_def)
    from insert_all_created [OF m assms(2) this] show ?thesis using UpsertAll j by simp
  qed (use assms in \<open>simp_all add: new_handle_old on_handle_keep_self\<close>)
qed

lemma Table_exists:
  "Table nm c = (r, c') \<Longrightarrow>
     r = Inr \<lparr>name = nm, exists = (nm \<in> fst ` set (pending c))\<rparr>"
  by (auto simp: Table_def tables_def execute_def run_def placeholders_def comp_def
        case_prod_unfold image_iff split: prod.splits sum.splits)


text \<open>
  Claim C9. The cached state of a handle never goes from present to absent. Over any
  sequence of actions on any handles of a world, a handle that is present stays
  present; \<^verbatim>\<open>drop\<close> in particular changes no handle at all, neither the one it is called
  on nor another one for the same table. A handle goes from absent to present only by
  an action on that very handle whose table creation succeeds, and a new handle gets
  its state from the table list at construction.
\<close>

theorem exists_never_cleared:
  "(i < length (handles w) \<and> exists (handles w ! i) \<longrightarrow>
      i < length (handles (fold step acts w)) \<and> exists (handles (fold step acts w) ! i)) \<and>
   handles (step (Drop j) w) = handles w \<and>
   (i < length (handles w) \<and> \<not> exists (handles w ! i) \<and> exists (handles (step a w) ! i) \<longrightarrow>
      (\<exists>cols pk fks. creation_of a = Some (i, cols, pk, fks) \<and>
         fst (create (handles w ! i) cols pk fks (db w)) = Inr ())) \<and>
   fst (Table nm c) = Inr \<lparr>name = nm, exists = (nm \<in> fst ` set (pending c))\<rparr>"
proof -
  have "fst (Table nm c) = Inr \<lparr>name = nm, exists = (nm \<in> fst ` set (pending c))\<rparr>"
    by (cases "Table nm c") (simp add: Table_exists)
  moreover have "handles (step (Drop j) w) = handles w"
    by (simp add: on_handle_keep_self)
  ultimately show ?thesis
    using steps_exists [of i w acts] step_sets_flag [of i w a] by blast
qed

text \<open>
  Two handles for one table: the first creates the table, the second is made
  afterwards and drops it.
\<close>

lemma scenario_created:
  "fold step [GetItem ''t'', Create 0 [(''a'', TInt)] None None, GetItem ''t'']
     \<lparr>db = \<lparr>pending = [], committed = [], journal = []\<rparr>, handles = []\<rparr> =
   \<lparr>db = \<lparr>pending = [(''t'', \<lparr>tcols = [\<lparr>cname = ''a'', ctype = ''INTEGER'', cpk = False, cref = None\<rparr>],
                                 trows = []\<rparr>)],
           committed = [],
           journal = [Execute SelectTableNames [],
                      Execute (CreateTable ''t'' [(''a'', ''INTEGER'', False)]) [],
                      Execute SelectTableNames [], Execute SelectTableNames []]\<rparr>,
      handles = [\<lparr>name = ''t'', exists = True\<rparr>, \<lparr>name = ''t'', exists = True\<rparr>]\<rparr>"
  by (simp add: new_handle_def on_handle_def Table_def tables_def execute_def run_def
        placeholders_def create_def create_table_def no_rows_def)

text \<open>
  Witness for C9: after the drop through the second handle the first handle still
  reports present although the database holds no table; and the one transition from
  absent to present in the scenario is the successful creation.
\<close>

theorem exists_never_cleared_witness:
  "exists (handles (fold step [Drop 1]
       (fold step [GetItem ''t'', Create 0 [(''a'', TInt)] None None, GetItem ''t'']
          \<lparr>db = \<lparr>pending = [], committed = [], journal = []\<rparr>, handles = []\<rparr>)) ! 0) \<and>
   pending (db (fold step [Drop 1]
       (fold step [GetItem ''t'', Create 0 [(''a'', TInt)] None None, GetItem ''t'']
          \<lparr>db = \<lparr>pending = [], committed = [], journal = []\<rparr>, handles = []\<rparr>))) = [] \<and>
   fst (create \<lparr>name = ''t'', exists = False\<rparr> [(''a'', TInt)] None None
          \<lparr>pending = [], committed = [], journal = [Execute SelectTableNames []]\<rparr>) = Inr ()"
proof -
  let ?w1 = "\<lparr>db = \<lparr>pending = [], committed = [], journal = [Execute SelectTableNames []]\<rparr>,
              handles = [\<lparr>name = ''t'', exists = False\<rparr>]\<rparr>"
  let ?w3 = "\<lparr>db = \<lparr>pending = [(''t'', \<lparr>tcols = [\<lparr>cname = ''a'', ctype = ''INTEGER'', cpk = False, cref = None\<rparr>],
                                 trows = []\<rparr>)],
           committed = [],
           journal = [Execute SelectTableNames [],
                      Execute (CreateTable ''t'' [(''a'', ''INTEGER'', False)]) [],
                      Execute SelectTableNames [], Execute SelectTableNames []]\<rparr>,
      handles = [\<lparr>name = ''t'', exists = True\<rparr>, \<lparr>name = ''t'', exists = True\<rparr>]\<rparr>"
  have a: "exists (handles (fold step [Drop 1] ?w3) ! 0)"
    using exists_never_cleared [of 0 ?w3 "[Drop 1]"] by simp
  have b: "pending (db (fold step [Drop 1] ?w3)) = []"
    by (simp add: on_handle_def keep_self_def drop_table_def execute_def run_def
          placeholders_def no_rows_def)
  have c: "exists (handles (step (Create 0 [(''a'', TInt)] None None) ?w1) ! 0)"
    by (simp add: on_handle_def Table_def tables_def execute_def run_def
        placeholders_def create_def create_table_def no_rows_def)
  have d: "fst (create \<lparr>name = ''t'', exists = False\<rparr> [(''a'', TInt)] None None
          \<lparr>pending = [], committed = [], journal = [Execute SelectTableNames []]\<rparr>) = Inr ()"
    using exists_never_cleared [of 0 ?w1 _ _ "Create 0 [(''a'', TInt)] None None"] c
    by simp
  show ?thesis
    unfolding scenario_created using a b d by simp
qed

section \<open>Commits of the schema operations\<close>

text \<open>
  Claim C6 says that the table creation is committed. \<open>create_table\<close> executes its
  statement and makes a handle, but never calls \<open>commit\<close>, unlike \<open>add_foreign_key\<close>.
  The connection here is one that the caller hands to \<^verbatim>\<open>Database\<close> with a transaction
  open: the table \<open>other\<close> is committed, a row inserted into it is not yet. On this
  connection \<open>create\<close> without foreign keys returns normally and sets the flag of the
  handle, while the new table joins the open transaction: it is in the pending state
  only, and the committed state is the one before the call. With one foreign key the
  same creation ends committed, by the commit of \<open>add_foreign_key\<close>.
\<close>

theorem create_leaves_creation_uncommitted:
  "execute (commit (snd (execute \<lparr>pending = [], committed = [], journal = []\<rparr>
                             (CreateTable ''other'' [(''id'', ''INTEGER'', True)]) [])))
       (InsertInto False ''other'' [''id''] 1) [VInt 1] =
     (Inr \<lparr>rowcount = 1, fetchall = []\<rparr>,
      \<lparr>pending = [(''other'', \<lparr>tcols = [\<lparr>cname = ''id'', ctype = ''INTEGER'', cpk = True, cref = None\<rparr>],
                               trows = [[(''id'', VInt 1)]]\<rparr>)],
       committed = [(''other'', \<lparr>tcols = [\<lparr>cname = ''id'', ctype = ''INTEGER'', cpk = True, cref = None\<rparr>],
                                 trows = []\<rparr>)],
       journal = [Execute (CreateTable ''other'' [(''id'', ''INTEGER'', True)]) [], Commit,
                  Execute (InsertInto False ''other'' [''id''] 1) [VInt 1]]\<rparr>) \<and>
   create \<lparr>name = ''t'', exists = False\<rparr> [(''a'', TInt)] None None
       \<lparr>pending = [(''other'', \<lparr>tcols = [\<lparr>cname = ''id'', ctype = ''INTEGER'', cpk = True, cref = None\<rparr>],
                               trows = [[(''id'', VInt 1)]]\<rparr>)],
        committed = [(''other'', \<lparr>tcols = [\<lparr>cname = ''id'', ctype = ''INTEGER'', cpk = True, cref = None\<rparr>],
                                  trows = []\<rparr>)],
        journal = [Execute (CreateTable ''other'' [(''id'', ''INTEGER'', True)]) [], Commit,
                   Execute (InsertInto False ''other'' [''id''] 1) [VInt 1]]\<rparr> =
     (Inr (), \<lparr>name = ''t'', exists = True\<rparr>,
      \<lparr>pending = [(''other'', \<lparr>tcols = [\<lparr>cname = ''id'', ctype = ''INTEGER'', cpk = True, cref = None\<rparr>],
                               trows = [[(''id'', VInt 1)]]\<rparr>),
                  (''t'', \<lparr>tcols = [\<lparr>cname = ''a'', ctype = ''INTEGER'', cpk = False, cref = None\<rparr>],
                           trows = []\<rparr>)],
       committed = [(''other'', \<lparr>tcols = [\<lparr>cname = ''id'', ctype = ''INTEGER'', cpk = True, cref = None\<rparr>],
                                 trows = []\<rparr>)],
       journal = [Execute (CreateTable ''other'' [(''id'', ''INTEGER'', True)]) [], Commit,
                  Execute (InsertInto False ''other'' [''id''] 1) [VInt 1],
                  Execute (CreateTable ''t'' [(''a'', ''INTEGER'', False)]) [],
                  Execute SelectTableNames []]\<rparr>) \<and>
   create \<lparr>name = ''t'', exists = False\<rparr> [(''a'', TInt)] None
       (Some [(''b'', ''INTEGER'', ''other'', ''id'')])
       \<lparr>pending = [(''other'', \<lparr>tcols = [\<lparr>cname = ''id'', ctype = ''INTEGER'', cpk = True, cref = None\<rparr>],
                               trows = [[(''id'', VInt 1)]]\<rparr>)],
        committed = [(''other'', \<lparr>tcols = [\<lparr>cname = ''id'', ctype = ''INTEGER'', cpk = True, cref = None\<rparr>],
                                  trows = []\<rparr>)],
        journal = [Execute (CreateTable ''other'' [(''id'', ''INTEGER'', True)]) [], Commit,
                   Execute (InsertInto False ''other'' [''id''] 1) [VInt 1]]\<rparr> =
     (Inr (), \<lparr>name = ''t'', exists = True\<rparr>,
      \<lparr>pending = [(''other'', \<lparr>tcols = [\<lparr>cname = ''id'', ctype = ''INTEGER'', cpk = True, cref = None\<rparr>],
                               trows = [[(''id'', VInt 1)]]\<rparr>),
                  (''t'', \<lparr>tcols = [\<lparr>cname = ''a'', ctype = ''INTEGER'', cpk = False, cref = None\<rparr>,
                                   \<lparr>cname = ''b'', ctype = ''INTEGER'', cpk = False,
                                      cref = Some (''other'', ''id'')\<rparr>],
                           trows = []\<rparr>)],
       committed = [(''other'', \<lparr>tcols = [\<lparr>cname = ''id'', ctype = ''INTEGER'', cpk = True, cref = None\<rparr>],
                                 trows = [[(''id'', VInt 1)]]\<rparr>),
                    (''t'', \<lparr>tcols = [\<lparr>cname = ''a'', ctype = ''INTEGER'', cpk = False, cref = None\<rparr>,
                                     \<lparr>cname = ''b'', ctype = ''INTEGER'', cpk = False,
                                        cref = Some (''other'', ''id'')\<rparr>],
                             trows = []\<rparr>)],
       journal = [Execute (CreateTable ''other'' [(''id'', ''INTEGER'', True)]) [], Commit,
                  Execute (InsertInto False ''other'' [''id''] 1) [VInt 1],
                  Execute (CreateTable ''t'' [(''a'', ''INTEGER'', False)]) [],
                  Execute SelectTableNames [],
                  Execute (AlterTableAddColumn ''t'' ''b'' ''INTEGER'' ''other'' ''id'') [],
                  Commit]\<rparr>)"
  by (simp add: Table_def tables_def create_def create_table_def add_foreign_key_def engine_defs)

section \<open>The write loop\<close>

lemma execute_journal: "journal (snd (execute c sql ps)) = journal c @ [Execute sql ps]"
  by (simp add: execute_def Let_def split: sum.splits prod.splits)

lemma execute_failed:
  "execute c sql ps = (Inl e, c') \<Longrightarrow> c' = c\<lparr>journal := journal c @ [Execute sql ps]\<rparr>"
  by (auto simp: execute_def Let_def split: sum.splits prod.splits)

lemma create_handle_ok:
  "create self cols pk fks c = (Inr (), h', c') \<Longrightarrow> h' = self\<lparr>exists := True\<rparr>"
  by (auto simp: create_def Let_def split: prod.splits sum.splits)

lemma insert_chunks_append:
  "insert_chunks self ups cols (xs @ ys) res c =
     (case insert_chunks self ups cols xs res c of
        (Inl e, c') \<Rightarrow> (Inl e, c')
      | (Inr res', c') \<Rightarrow> insert_chunks self ups cols ys res' c')"
  by (induction xs arbitrary: res c) (auto simp: Let_def split: prod.splits sum.splits)

lemma insert_chunks_step:
  "insert_chunks self ups cols (chunk # rest) res c =
     (case execute c (InsertInto ups (name self) cols (length chunk))
             (concat (map (\<lambda>record. map (\<lambda>key. dict_get record key) cols) chunk)) of
        (Inl e, c') \<Rightarrow> (Inl e, c')
      | (Inr result', c') \<Rightarrow> insert_chunks self ups cols rest (Some result') (commit c'))"
  by (simp add: Let_def)

lemma insert_chunks_ok:
  "insert_chunks self ups cols cs res c = (Inr res', c') \<Longrightarrow>
     journal c' = journal c @ concat (map (\<lambda>ch. [insert_call ups (name self) cols ch, Commit]) cs) \<and>
     (cs \<noteq> [] \<longrightarrow> committed c' = pending c' \<and> res' \<noteq> None) \<and>
     (cs = [] \<longrightarrow> c' = c \<and> res' = res)"
proof (induction cs arbitrary: res c)
  case Nil
  then show ?case by simp
next
  case (Cons ch cs)
  let ?sql = "InsertInto ups (name self) cols (length ch)"
  let ?vals = "concat (map (\<lambda>record. map (\<lambda>key. dict_get record key) cols) ch)"
  obtain r1 c1 where e: "execute c ?sql ?vals = (r1, c1)" by (cases "execute c ?sql ?vals") auto
  with Cons.prems obtain cur where r1: "r1 = Inr cur"
    and rest: "insert_chunks self ups cols cs (Some cur) (commit c1) = (Inr res', c')"
    by (cases r1) (auto simp: insert_chunks_step)
  have j1: "journal c1 = journal c @ [Execute ?sql ?vals]"
    using execute_journal [of c ?sql ?vals] e by simp
  from Cons.IH [OF rest] j1 show ?case
    by (cases "cs = []") (auto simp: commit_def insert_call_def)
qed


lemma insert_chunks_single_failed:
  assumes "fst (insert_chunks self ups cols [ch] r1 c1) = Inl e"
  shows "insert_chunks self ups cols (ch # post) r1 c1 =
           (Inl e, c1\<lparr>journal := journal c1 @ [insert_call ups (name self) cols ch]\<rparr>)"
proof -
  let ?sql = "InsertInto ups (name self) cols (length ch)"
  let ?vals = "concat (map (\<lambda>record. map (\<lambda>key. dict_get record key) cols) ch)"
  obtain r2 c2 where e: "execute c1 ?sql ?vals = (r2, c2)" by (cases "execute c1 ?sql ?vals") auto
  with assms have r2: "r2 = Inl e"
    by (cases r2) (auto simp: insert_chunks_step)
  from execute_failed [OF e [unfolded r2]] e r2 show ?thesis
    by (simp add: insert_chunks_step insert_call_def)
qed

lemma insert_chunks_single_ok:
  assumes "insert_chunks self ups cols [ch] r c1 = (Inr res, c')"
  shows "insert_chunks self ups cols [ch] r' c1 = (Inr res, c')"
  using assms by (auto simp: insert_chunks_step split: prod.splits sum.splits)

lemma insert_all_present:
  "exists self \<Longrightarrow>
   insert_all self records pk fks ups bs c =
     (case chunks records bs of
        Inl e \<Rightarrow> (Inl e, self, c)
      | Inr cs \<Rightarrow>
          (case insert_chunks self ups (all_columns_of records) cs None c of
             (Inl e, c2) \<Rightarrow> (Inl e, self, c2)
           | (Inr None, c2) \<Rightarrow>
               (Inl (UnboundLocalError ''local variable result referenced before assignment''),
                self, c2)
           | (Inr (Some result), c2) \<Rightarrow> (Inr result, self, c2)))"
  by (simp add: insert_all_def)

lemma insert_all_after_create:
  "\<not> exists self \<Longrightarrow> create self (detect_column_types records) pk fks c = (Inr (), self1, c1) \<Longrightarrow>
   insert_all self records pk fks ups bs c = insert_all self1 records pk fks ups bs c1 \<and> exists self1"
  by (frule create_handle_ok) (simp add: insert_all_def)

text \<open>
  Claim C5. \<open>insert_all\<close> commits after each chunk. On a present handle: if the chunks
  before chunk \<open>ch\<close> are written and the write of \<open>ch\<close> fails, the call raises that error
  and the connection is the one left by the chunks before \<open>ch\<close>, whose last commit made
  them durable, with the failed statement as the only further call: no later chunk is
  attempted and nothing is rolled back. If the call returns, the journal is one
  statement and one commit per chunk, everything is committed, and the result is the
  one that the execution of the last chunk yields, whatever the results before it.
  On an absent handle whose table creation succeeds, the call goes on as the same call
  on the handle, now present, in the state after the creation.
\<close>

theorem insert_all_commits_per_chunk:
  "(exists self \<and> chunks records batch_size = Inr (pre @ ch # post) \<and>
    insert_chunks self ups (all_columns_of records) pre None c = (Inr r1, c1) \<and>
    fst (insert_chunks self ups (all_columns_of records) [ch] r1 c1) = Inl e \<longrightarrow>
      insert_all self records pk fks ups batch_size c =
        (Inl e, self,
         c1\<lparr>journal := journal c1 @ [insert_call ups (name self) (all_columns_of records) ch]\<rparr>) \<and>
      journal c1 = journal c @
        concat (map (\<lambda>ch. [insert_call ups (name self) (all_columns_of records) ch, Commit]) pre) \<and>
      (pre \<noteq> [] \<longrightarrow> committed c1 = pending c1)) \<and>
   (exists self \<and> insert_all self records pk fks ups batch_size c = (Inr res, self', c') \<longrightarrow>
      (\<exists>cs r1 c1. chunks records batch_size = Inr cs \<and> cs \<noteq> [] \<and>
         insert_chunks self ups (all_columns_of records) (butlast cs) None c = (Inr r1, c1) \<and>
         (\<forall>r. insert_chunks self ups (all_columns_of records) [last cs] r c1 = (Inr (Some res), c')) \<and>
         journal c' = journal c @
           concat (map (\<lambda>ch. [insert_call ups (name self) (all_columns_of records) ch, Commit]) cs) \<and>
         committed c' = pending c' \<and> self' = self)) \<and>
   (\<not> exists self \<and> create self (detect_column_types records) pk fks c = (Inr (), self1, c0) \<longrightarrow>
      exists self1 \<and>
      insert_all self records pk fks ups batch_size c =
        insert_all self1 records pk fks ups batch_size c0)"
proof (intro conjI impI)
  let ?cols = "all_columns_of records"
  assume a: "exists self \<and> chunks records batch_size = Inr (pre @ ch # post) \<and>
    insert_chunks self ups ?cols pre None c = (Inr r1, c1) \<and>
    fst (insert_chunks self ups ?cols [ch] r1 c1) = Inl e"
  then have f: "insert_chunks self ups ?cols (ch # post) r1 c1 =
      (Inl e, c1\<lparr>journal := journal c1 @ [insert_call ups (name self) ?cols ch]\<rparr>)"
    by (intro insert_chunks_single_failed) simp
  from a f show "insert_all self records pk fks ups batch_size c =
        (Inl e, self, c1\<lparr>journal := journal c1 @ [insert_call ups (name self) ?cols ch]\<rparr>)"
    by (simp add: insert_all_present insert_chunks_append)
  from a insert_chunks_ok [of self ups ?cols pre None c r1 c1]
  show "journal c1 = journal c @
        concat (map (\<lambda>ch. [insert_call ups (name self) ?cols ch, Commit]) pre)"
    by simp
  from a insert_chunks_ok [of self ups ?cols pre None c r1 c1]
  show "pre \<noteq> [] \<Longrightarrow> committed c1 = pending c1"
    by simp
next
  let ?cols = "all_columns_of records"
  assume a: "exists self \<and> insert_all self records pk fks ups batch_size c = (Inr res, self', c')"
  then obtain cs where cs: "chunks records batch_size = Inr cs"
    by (cases "chunks records batch_size") (auto simp: insert_all_present)
  from a cs have ic: "insert_chunks self ups ?cols cs None c = (Inr (Some res), c')" and s: "self' = self"
    by (auto simp: insert_all_present split: prod.splits sum.splits option.splits)
  from insert_chunks_ok [OF ic] have ne: "cs \<noteq> []" by auto
  then have split: "cs = butlast cs @ [last cs]" by simp
  obtain r1 c1 where p: "insert_chunks self ups ?cols (butlast cs) None c = (r1, c1)"
    by (cases "insert_chunks self ups ?cols (butlast cs) None c") auto
  from ic have "insert_chunks self ups ?cols (butlast cs @ [last cs]) None c = (Inr (Some res), c')"
    using split by simp
  with p obtain r1' where r1: "r1 = Inr r1'"
    and l: "insert_chunks self ups ?cols [last cs] r1' c1 = (Inr (Some res), c')"
    by (cases r1) (auto simp: insert_chunks_append)
  from l have "\<forall>r. insert_chunks self ups ?cols [last cs] r c1 = (Inr (Some res), c')"
    by (blast intro: insert_chunks_single_ok)
  with cs ne p r1 s insert_chunks_ok [OF ic]
  show "\<exists>cs r1 c1. chunks records batch_size = Inr cs \<and> cs \<noteq> [] \<and>
         insert_chunks self ups ?cols (butlast cs) None c = (Inr r1, c1) \<and>
         (\<forall>r. insert_chunks self ups ?cols [last cs] r c1 = (Inr (Some res), c')) \<and>
         journal c' = journal c @
           concat (map (\<lambda>ch. [insert_call ups (name self) ?cols ch, Commit]) cs) \<and>
         committed c' = pending c' \<and> self' = self"
    by auto
next
  assume a: "\<not> exists self \<and> create self (detect_column_types records) pk fks c = (Inr (), self1, c0)"
  then show "exists self1"
    by (auto dest: create_handle_ok)
  from a show "insert_all self records pk fks ups batch_size c =
        insert_all self1 records pk fks ups batch_size c0"
    using insert_all_after_create [of self records pk fks c self1 c0] by simp
qed

lemma fold_union_keys:
  "fold (\<lambda>record acc. acc \<union> set (dict_keys record)) records A =
     A \<union> (\<Union>record \<in> set records. set (dict_keys record))"
  by (induction records arbitrary: A) auto

lemma all_columns_of_union:
  "all_columns_of records = sorted_list_of_set (\<Union>record \<in> set records. set (dict_keys record))"
  by (simp add: all_columns_of_def fold_union_keys)

lemma insert_all_handle_present:
  "exists self \<Longrightarrow> fst (snd (insert_all self rs pk fks ups bs c)) = self"
  by (auto simp: insert_all_def split: prod.splits sum.splits option.splits)

lemma all_columns_of_sort:
  "all_columns_of records = sort (remdups (concat (map dict_keys records)))"
  by (simp add: all_columns_of_union sorted_list_of_set_sort_remdups [symmetric])



text \<open>
  Witness for C5, on a table with primary key \<open>id\<close>. Five records in chunks of two,
  the third record repeating the key of the first: the second chunk fails, the first
  chunk is committed and the third chunk is never sent. Three records in chunks of two:
  the result counts the one row of the last chunk. A single record on an absent handle:
  the call continues on the present handle after the creation.
\<close>

theorem insert_all_commits_per_chunk_witness:
  "insert_all \<lparr>name = ''t'', exists = True\<rparr>
     [[(''id'', VInt 1)], [(''id'', VInt 2)], [(''id'', VInt 1)], [(''id'', VInt 3)], [(''id'', VInt 4)]]
     None None False 2
     \<lparr>pending = [(''t'', \<lparr>tcols = [\<lparr>cname = ''id'', ctype = ''INTEGER'', cpk = True, cref = None\<rparr>],
                           trows = []\<rparr>)],
      committed = [], journal = []\<rparr> =
   (Inl (IntegrityError ''UNIQUE constraint failed''), \<lparr>name = ''t'', exists = True\<rparr>,
    \<lparr>pending = [(''t'', \<lparr>tcols = [\<lparr>cname = ''id'', ctype = ''INTEGER'', cpk = True, cref = None\<rparr>],
                          trows = [[(''id'', VInt 1)], [(''id'', VInt 2)]]\<rparr>)],
     committed = [(''t'', \<lparr>tcols = [\<lparr>cname = ''id'', ctype = ''INTEGER'', cpk = True, cref = None\<rparr>],
                            trows = [[(''id'', VInt 1)], [(''id'', VInt 2)]]\<rparr>)],
     journal = [Execute (InsertInto False ''t'' [''id''] 2) [VInt 1, VInt 2], Commit,
                Execute (InsertInto False ''t'' [''id''] 2) [VInt 1, VInt 3]]\<rparr>) \<and>
   (\<exists>c'. insert_all \<lparr>name = ''t'', exists = True\<rparr>
     [[(''id'', VInt 1)], [(''id'', VInt 2)], [(''id'', VInt 3)]] None None False 2
     \<lparr>pending = [(''t'', \<lparr>tcols = [\<lparr>cname = ''id'', ctype = ''INTEGER'', cpk = True, cref = None\<rparr>],
                           trows = []\<rparr>)],
      committed = [], journal = []\<rparr> =
     (Inr \<lparr>rowcount = 1, fetchall = []\<rparr>, \<lparr>name = ''t'', exists = True\<rparr>, c') \<and>
     journal c' = [Execute (InsertInto False ''t'' [''id''] 2) [VInt 1, VInt 2], Commit,
                   Execute (InsertInto False ''t'' [''id''] 1) [VInt 3], Commit] \<and>
     committed c' = pending c') \<and>
   insert_all \<lparr>name = ''t'', exists = False\<rparr> [[(''id'', VInt 1)]] (Some ''id'') None False 100
     \<lparr>pending = [], committed = [], journal = []\<rparr> =
   insert_all \<lparr>name = ''t'', exists = True\<rparr> [[(''id'', VInt 1)]] (Some ''id'') None False 100
     \<lparr>pending = [(''t'', \<lparr>tcols = [\<lparr>cname = ''id'', ctype = ''INTEGER'', cpk = True, cref = None\<rparr>],
                           trows = []\<rparr>)],
      committed = [],
      journal = [Execute (CreateTable ''t'' [(''id'', ''INTEGER'', True)]) [],
                 Execute SelectTableNames []]\<rparr>"
proof -
  let ?t = "\<lparr>name = ''t'', exists = True\<rparr>"
  let ?td = "\<lparr>tcols = [\<lparr>cname = ''id'', ctype = ''INTEGER'', cpk = True, cref = None\<rparr>], trows = []\<rparr>"
  let ?td12 = "\<lparr>tcols = [\<lparr>cname = ''id'', ctype = ''INTEGER'', cpk = True, cref = None\<rparr>],
                 trows = [[(''id'', VInt 1)], [(''id'', VInt 2)]]\<rparr>"
  let ?c = "\<lparr>pending = [(''t'', ?td)], committed = [], journal = []\<rparr>"
  let ?c1 = "\<lparr>pending = [(''t'', ?td12)], committed = [(''t'', ?td12)],
              journal = [Execute (InsertInto False ''t'' [''id''] 2) [VInt 1, VInt 2], Commit]\<rparr>"
  let ?r5 = "[[(''id'', VInt 1)], [(''id'', VInt 2)], [(''id'', VInt 1)], [(''id'', VInt 3)], [(''id'', VInt 4)]]"
  let ?r3 = "[[(''id'', VInt 1)], [(''id'', VInt 2)], [(''id'', VInt 3)]]"
  have cols5: "all_columns_of ?r5 = [''id'']"
    by (simp add: all_columns_of_sort dict_keys_def)
  have ch5: "chunks ?r5 2 = Inr ([[[(''id'', VInt 1)], [(''id'', VInt 2)]]] @
      [[(''id'', VInt 1)], [(''id'', VInt 3)]] # [[[(''id'', VInt 4)]]])"
    by (simp add: chunks_def range0_def)
  have pre: "insert_chunks ?t False [''id''] [[[(''id'', VInt 1)], [(''id'', VInt 2)]]] None ?c =
      (Inr (Some \<lparr>rowcount = 2, fetchall = []\<rparr>), ?c1)"
    by (simp add: engine_defs)
  have fail: "fst (insert_chunks ?t False [''id''] [[[(''id'', VInt 1)], [(''id'', VInt 3)]]]
      (Some \<lparr>rowcount = 2, fetchall = []\<rparr>) ?c1) = Inl (IntegrityError ''UNIQUE constraint failed'')"
    by (simp add: engine_defs)
  have a: "insert_all ?t ?r5 None None False 2 ?c =
      (Inl (IntegrityError ''UNIQUE constraint failed''), ?t,
       ?c1\<lparr>journal := journal ?c1 @
          [insert_call False ''t'' [''id''] [[(''id'', VInt 1)], [(''id'', VInt 3)]]]\<rparr>)"
    using insert_all_commits_per_chunk [of ?t ?r5 2 "[[[(''id'', VInt 1)], [(''id'', VInt 2)]]]"
        "[[(''id'', VInt 1)], [(''id'', VInt 3)]]" "[[[(''id'', VInt 4)]]]" False ?c
        "Some \<lparr>rowcount = 2, fetchall = []\<rparr>" ?c1 "IntegrityError ''UNIQUE constraint failed''"
        None None]
      ch5 pre fail
    by (simp add: cols5)
  have ok: "fst (insert_all ?t ?r3 None None False 2 ?c) = Inr \<lparr>rowcount = 1, fetchall = []\<rparr>"
    by (simp add: insert_all_def chunks_def range0_def all_columns_of_sort dict_keys_def engine_defs)
  obtain c' where ia: "insert_all ?t ?r3 None None False 2 ?c = (Inr \<lparr>rowcount = 1, fetchall = []\<rparr>, ?t, c')"
    using ok insert_all_handle_present [of ?t ?r3 None None False 2 ?c]
    by (cases "insert_all ?t ?r3 None None False 2 ?c") auto
  have cols3: "all_columns_of ?r3 = [''id'']"
    by (simp add: all_columns_of_sort dict_keys_def)
  have ch3: "chunks ?r3 2 = Inr [[[(''id'', VInt 1)], [(''id'', VInt 2)]], [[(''id'', VInt 3)]]]"
    by (simp add: chunks_def range0_def)
  have ex: "exists ?t" by simp
  note th = insert_all_commits_per_chunk [of ?t ?r3 2 _ _ _ False ?c _ _ _ None None
        "\<lparr>rowcount = 1, fetchall = []\<rparr>" ?t c', THEN conjunct2, THEN conjunct1, THEN mp,
        OF conjI, OF ex ia]
  then obtain cs where cs: "chunks ?r3 2 = Inr cs"
    and j: "journal c' = journal ?c @
           concat (map (\<lambda>ch. [insert_call False (name ?t) (all_columns_of ?r3) ch, Commit]) cs)"
    and k: "committed c' = pending c'"
    by blast
  from cs ch3 have "cs = [[[(''id'', VInt 1)], [(''id'', VInt 2)]], [[(''id'', VInt 3)]]]"
    by simp
  with j k have b: "journal c' = [Execute (InsertInto False ''t'' [''id''] 2) [VInt 1, VInt 2], Commit,
                   Execute (InsertInto False ''t'' [''id''] 1) [VInt 3], Commit] \<and>
     committed c' = pending c'"
    by (simp add: cols3 insert_call_def dict_get_def)
  have cr: "create \<lparr>name = ''t'', exists = False\<rparr> (detect_column_types [[(''id'', VInt 1)]])
       (Some ''id'') None \<lparr>pending = [], committed = [], journal = []\<rparr> =
     (Inr (), ?t, \<lparr>pending = [(''t'', ?td)], committed = [],
      journal = [Execute (CreateTable ''t'' [(''id'', ''INTEGER'', True)]) [],
                 Execute SelectTableNames []]\<rparr>)"
    by (simp add: detect_column_types_def all_column_types_def reduce_types_def create_def
          create_table_def Table_def tables_def engine_defs)
  have c: "insert_all \<lparr>name = ''t'', exists = False\<rparr> [[(''id'', VInt 1)]] (Some ''id'') None False 100
     \<lparr>pending = [], committed = [], journal = []\<rparr> =
   insert_all ?t [[(''id'', VInt 1)]] (Some ''id'') None False 100
     \<lparr>pending = [(''t'', ?td)], committed = [],
      journal = [Execute (CreateTable ''t'' [(''id'', ''INTEGER'', True)]) [],
                 Execute SelectTableNames []]\<rparr>"
    using insert_all_commits_per_chunk [of "\<lparr>name = ''t'', exists = False\<rparr>" "[[(''id'', VInt 1)]]"
        100 _ _ _ False "\<lparr>pending = [], committed = [], journal = []\<rparr>" _ _ _ "Some ''id''" None _ _ _ ?t] cr
    by simp
  from a have a': "insert_all ?t ?r5 None None False 2 ?c =
   (Inl (IntegrityError ''UNIQUE constraint failed''), ?t,
    \<lparr>pending = [(''t'', ?td12)], committed = [(''t'', ?td12)],
     journal = [Execute (InsertInto False ''t'' [''id''] 2) [VInt 1, VInt 2], Commit,
                Execute (InsertInto False ''t'' [''id''] 2) [VInt 1, VInt 3]]\<rparr>)"
    by (simp add: insert_call_def dict_get_def)
  from a' ia b c show ?thesis
    by auto
qed

section \<open>Table creation with foreign keys\<close>

lemma Table_state:
  "Table nm c = (r, c') \<Longrightarrow> c' = c\<lparr>journal := journal c @ [Execute SelectTableNames []]\<rparr>"
  by (auto simp: Table_def tables_def execute_def run_def placeholders_def
        split: prod.splits sum.splits)

lemma create_table_failed:
  "create_table nm cols pk c = (Inl e, c') \<Longrightarrow>
     c' = c\<lparr>journal := journal c @
        [Execute (CreateTable nm (map (\<lambda>(n, t). (n, sql_type t, pk = Some n)) cols)) []]\<rparr>"
  by (auto simp: create_table_def Let_def dest: execute_failed Table_exists
        split: prod.splits sum.splits)

lemma create_table_ok:
  assumes "create_table nm cols pk c = (Inr h, c')"
  shows "journal c' = journal c @
        [Execute (CreateTable nm (map (\<lambda>(n, t). (n, sql_type t, pk = Some n)) cols)) [],
         Execute SelectTableNames []] \<and>
     committed c' = committed c \<and>
     map_of (pending c') nm =
       Some \<lparr>tcols = map (\<lambda>(n, ty, p). \<lparr>cname = n, ctype = ty, cpk = p, cref = None\<rparr>)
                       (map (\<lambda>(n, t). (n, sql_type t, pk = Some n)) cols),
             trows = []\<rparr>"
proof -
  let ?sql = "CreateTable nm (map (\<lambda>(n, t). (n, sql_type t, pk = Some n)) cols)"
  obtain r1 c1 where e: "execute c ?sql [] = (r1, c1)" by (cases "execute c ?sql []") auto
  with assms obtain cur where r1: "r1 = Inr cur" and t: "Table nm c1 = (Inr h, c')"
    by (cases r1) (auto simp: create_table_def)
  from e r1 have "\<exists>db'. run ?sql [] (pending c) = Inr (cur, db') \<and>
      c1 = c\<lparr>journal := journal c @ [Execute ?sql []], pending := db'\<rparr>"
    by (auto simp: execute_def Let_def split: sum.splits)
  then obtain db' where run: "run ?sql [] (pending c) = Inr (cur, db')"
    and c1: "c1 = c\<lparr>journal := journal c @ [Execute ?sql []], pending := db'\<rparr>"
    by blast
  from run have "map_of (pending c) nm = None \<and> db' = pending c @
      [(nm, \<lparr>tcols = map (\<lambda>(n, ty, p). \<lparr>cname = n, ctype = ty, cpk = p, cref = None\<rparr>)
                       (map (\<lambda>(n, t). (n, sql_type t, pk = Some n)) cols), trows = []\<rparr>)]"
    by (auto simp: run_def placeholders_def split: if_splits)
  then have "map_of db' nm = Some \<lparr>tcols = map (\<lambda>(n, ty, p). \<lparr>cname = n, ctype = ty, cpk = p, cref = None\<rparr>)
                       (map (\<lambda>(n, t). (n, sql_type t, pk = Some n)) cols), trows = []\<rparr>"
    by (auto simp: map_add_def)
  with Table_state [OF t] c1 show ?thesis by simp
qed

lemma map_of_update_table:
  "map_of d t = Some td \<Longrightarrow> map_of (update_table t td' d) t = Some td'"
  by (induction d) (auto simp: update_table_def split: if_splits)

lemma add_foreign_key_failed:
  "add_foreign_key self col ty ot oc c = (Inl e, c') \<Longrightarrow>
     c' = c\<lparr>journal := journal c @ [Execute (AlterTableAddColumn (name self) col ty ot oc) []]\<rparr>"
  by (auto simp: add_foreign_key_def Let_def dest: execute_failed split: prod.splits sum.splits)

lemma add_foreign_key_ok:
  assumes "add_foreign_key self col ty ot oc c = (Inr cur, c')"
  shows "journal c' = journal c @ [Execute (AlterTableAddColumn (name self) col ty ot oc) [], Commit] \<and>
     committed c' = pending c' \<and>
     (\<forall>td. map_of (pending c) (name self) = Some td \<longrightarrow>
        map_of (pending c') (name self) =
          Some \<lparr>tcols = tcols td @ [foreign_key_column (col, ty, ot, oc)],
                trows = map (\<lambda>row. row @ [(col, VNone)]) (trows td)\<rparr>)"
proof -
  let ?sql = "AlterTableAddColumn (name self) col ty ot oc"
  obtain r1 c1 where e: "execute c ?sql [] = (r1, c1)" by (cases "execute c ?sql []") auto
  with assms have r1: "r1 = Inr cur" and c': "c' = commit c1"
    by (cases r1; auto simp: add_foreign_key_def)+
  from e r1 obtain db' where run: "run ?sql [] (pending c) = Inr (cur, db')"
    and c1: "c1 = c\<lparr>journal := journal c @ [Execute ?sql []], pending := db'\<rparr>"
    by (auto simp: execute_def Let_def split: sum.splits)
  have "map_of db' (name self) =
          Some \<lparr>tcols = tcols td @ [foreign_key_column (col, ty, ot, oc)],
                trows = map (\<lambda>row. row @ [(col, VNone)]) (trows td)\<rparr>"
    if "map_of (pending c) (name self) = Some td" for td
    using run that
    by (auto simp: run_def placeholders_def foreign_key_column_def map_of_update_table
          split: if_splits option.splits)
  with c' c1 show ?thesis
    by (simp add: commit_def)
qed

lemma add_foreign_keys_journal:
  "add_foreign_keys self fks c = (r, c') \<Longrightarrow>
     \<exists>new. journal c' = journal c @ new \<and> prefix new (foreign_key_calls (name self) fks) \<and>
       (r = Inr () \<longrightarrow> new = foreign_key_calls (name self) fks)"
proof (induction fks arbitrary: c)
  case Nil
  then show ?case by (simp add: foreign_key_calls_def)
next
  case (Cons fk fks)
  obtain col ty ot oc where fk: "fk = (col, ty, ot, oc)" by (cases fk)
  obtain r1 c1 where a: "add_foreign_key self col ty ot oc c = (r1, c1)"
    by (cases "add_foreign_key self col ty ot oc c") auto
  show ?case
  proof (cases r1)
    case (Inl e)
    with a Cons.prems fk have "r = Inl e" "c' = c1" by simp_all
    with add_foreign_key_failed [OF a [unfolded Inl]] show ?thesis
      by (simp add: fk foreign_key_calls_def)
  next
    case (Inr cur)
    with a Cons.prems fk have rest: "add_foreign_keys self fks c1 = (r, c')" by simp
    from Cons.IH [OF rest] obtain new where new: "journal c' = journal c1 @ new"
      "prefix new (foreign_key_calls (name self) fks)"
      "r = Inr () \<longrightarrow> new = foreign_key_calls (name self) fks"
      by blast
    from add_foreign_key_ok [OF a [unfolded Inr]] new show ?thesis
      by (simp add: fk foreign_key_calls_def)
  qed
qed

lemma add_foreign_keys_table:
  "add_foreign_keys self fks c = (Inr (), c') \<Longrightarrow> map_of (pending c) (name self) = Some td \<Longrightarrow>
     \<exists>td'. map_of (pending c') (name self) = Some td' \<and>
       tcols td' = tcols td @ map foreign_key_column fks"
proof (induction fks arbitrary: c td)
  case Nil
  then show ?case by simp
next
  case (Cons fk fks)
  obtain col ty ot oc where fk: "fk = (col, ty, ot, oc)" by (cases fk)
  obtain r1 c1 where a: "add_foreign_key self col ty ot oc c = (r1, c1)"
    by (cases "add_foreign_key self col ty ot oc c") auto
  with Cons.prems(1) fk obtain cur where r1: "r1 = Inr cur"
    and rest: "add_foreign_keys self fks c1 = (Inr (), c')"
    by (cases r1) auto
  from add_foreign_key_ok [OF a [unfolded r1]] Cons.prems(2)
  have "map_of (pending c1) (name self) =
          Some \<lparr>tcols = tcols td @ [foreign_key_column (col, ty, ot, oc)],
                trows = map (\<lambda>row. row @ [(col, VNone)]) (trows td)\<rparr>"
    by simp
  from Cons.IH [OF rest this] show ?case
    by (simp add: fk)
qed


lemma create_journal:
  assumes "create self cols pk foreign_keys c = (r, self', c')"
    and "fks = (case foreign_keys of None \<Rightarrow> [] | Some l \<Rightarrow> l)"
    and "created = map (\<lambda>(n, t). (n, sql_type t, pk = Some n))
                     (filter (\<lambda>(n, t). n \<notin> set (map fst fks)) cols)"
  shows "\<exists>rest. journal c' = journal c @ Execute (CreateTable (name self) created) [] # rest \<and>
     prefix rest (Execute SelectTableNames [] # foreign_key_calls (name self) fks) \<and>
     (r = Inr () \<longrightarrow>
        rest = Execute SelectTableNames [] # foreign_key_calls (name self) fks \<and>
        (\<exists>td. map_of (pending c') (name self) = Some td \<and>
           tcols td = map (\<lambda>(n, ty, p). \<lparr>cname = n, ctype = ty, cpk = p, cref = None\<rparr>) created @
                      map foreign_key_column fks))"
proof -
  let ?cols' = "filter (\<lambda>(n, t). n \<notin> set (map fst fks)) cols"
  obtain r1 c1 where ct: "create_table (name self) ?cols' pk c = (r1, c1)"
    by (cases "create_table (name self) ?cols' pk c") auto
  show ?thesis
  proof (cases r1)
    case (Inl e)
    with assms(1,2) ct have "r = Inl e" "c' = c1"
      by (simp_all add: create_def)
    with create_table_failed [OF ct [unfolded Inl]] assms(3) show ?thesis
      by simp
  next
    case (Inr h)
    obtain r2 c2 where af: "add_foreign_keys self fks c1 = (r2, c2)"
      by (cases "add_foreign_keys self fks c1") auto
    from assms(1,2) ct Inr af have c': "c' = c2" and r: "r = Inr () \<longleftrightarrow> r2 = Inr ()"
      by (cases r2; simp add: create_def)+
    from create_table_ok [OF ct [unfolded Inr]] assms(3)
    have j1: "journal c1 = journal c @ [Execute (CreateTable (name self) created) [],
         Execute SelectTableNames []]"
      and t1: "map_of (pending c1) (name self) =
         Some \<lparr>tcols = map (\<lambda>(n, ty, p). \<lparr>cname = n, ctype = ty, cpk = p, cref = None\<rparr>) created,
               trows = []\<rparr>"
      by simp_all
    from add_foreign_keys_journal [OF af] obtain new where new: "journal c2 = journal c1 @ new"
      "prefix new (foreign_key_calls (name self) fks)"
      "r2 = Inr () \<longrightarrow> new = foreign_key_calls (name self) fks"
      by blast
    have tab: "\<exists>td. map_of (pending c2) (name self) = Some td \<and>
           tcols td = map (\<lambda>(n, ty, p). \<lparr>cname = n, ctype = ty, cpk = p, cref = None\<rparr>) created @
                      map foreign_key_column fks" if "r2 = Inr ()"
      using add_foreign_keys_table [OF af [unfolded that] t1] by simp
    from j1 new tab c' r show ?thesis
      by auto
  qed
qed

text \<open>
  Claim C7. For every call of \<open>create\<close> with a column mapping and a list of foreign
  keys: the first call made is the table creation, whose columns are those of the
  mapping that no foreign key claims, in the order of the mapping, so that no column of
  the statement has the name of a foreign-key column; the calls after it are the table
  list read by the new handle and then one column addition and one commit per foreign
  key, in the order given, up to the first one that fails. When \<open>create\<close> returns, every
  foreign key has been added, and the columns of the table are the created ones
  followed by the foreign-key columns, each with the type and reference of its
  foreign key.
\<close>

theorem create_excludes_foreign_key_columns:
  "create self cols pk foreign_keys c = (r, self', c') \<and>
   fks = (case foreign_keys of None \<Rightarrow> [] | Some l \<Rightarrow> l) \<longrightarrow>
     (\<exists>created rest.
        journal c' = journal c @ Execute (CreateTable (name self) created) [] # rest \<and>
        created = map (\<lambda>(n, t). (n, sql_type t, pk = Some n))
                    (filter (\<lambda>(n, t). n \<notin> set (map fst fks)) cols) \<and>
        set (map fst created) \<inter> set (map fst fks) = {} \<and>
        prefix rest (Execute SelectTableNames [] # foreign_key_calls (name self) fks) \<and>
        (r = Inr () \<longrightarrow>
           rest = Execute SelectTableNames [] # foreign_key_calls (name self) fks \<and>
           (\<exists>td. map_of (pending c') (name self) = Some td \<and>
              tcols td = map (\<lambda>(n, ty, p). \<lparr>cname = n, ctype = ty, cpk = p, cref = None\<rparr>) created @
                         map foreign_key_column fks)))"
proof
  assume a: "create self cols pk foreign_keys c = (r, self', c') \<and>
   fks = (case foreign_keys of None \<Rightarrow> [] | Some l \<Rightarrow> l)"
  define created where "created = map (\<lambda>(n, t). (n, sql_type t, pk = Some n))
                    (filter (\<lambda>(n, t). n \<notin> set (map fst fks)) cols)"
  have d: "set (map fst created) \<inter> set (map fst fks) = {}"
    by (force simp: created_def)
  from a create_journal [of self cols pk foreign_keys c r self' c' fks created] created_def d
  show "\<exists>created rest.
        journal c' = journal c @ Execute (CreateTable (name self) created) [] # rest \<and>
        created = map (\<lambda>(n, t). (n, sql_type t, pk = Some n))
                    (filter (\<lambda>(n, t). n \<notin> set (map fst fks)) cols) \<and>
        set (map fst created) \<inter> set (map fst fks) = {} \<and>
        prefix rest (Execute SelectTableNames [] # foreign_key_calls (name self) fks) \<and>
        (r = Inr () \<longrightarrow>
           rest = Execute SelectTableNames [] # foreign_key_calls (name self) fks \<and>
           (\<exists>td. map_of (pending c') (name self) = Some td \<and>
              tcols td = map (\<lambda>(n, ty, p). \<lparr>cname = n, ctype = ty, cpk = p, cref = None\<rparr>) created @
                         map foreign_key_column fks))"
    by blast
qed


text \<open>
  Witness for C7: columns \<open>a\<close> and \<open>b\<close>, both detected as integer, and a foreign key on
  \<open>b\<close> to \<open>other(id)\<close>. The table is created with \<open>a\<close> alone, and \<open>b\<close> is added
  afterwards with the reference.
\<close>

theorem create_excludes_foreign_key_columns_witness:
  "\<exists>c'. create \<lparr>name = ''t'', exists = False\<rparr> [(''a'', TInt), (''b'', TInt)] None
       (Some [(''b'', ''INTEGER'', ''other'', ''id'')])
       \<lparr>pending = [(''other'', \<lparr>tcols = [\<lparr>cname = ''id'', ctype = ''INTEGER'', cpk = True, cref = None\<rparr>],
                               trows = []\<rparr>)],
        committed = [], journal = []\<rparr> =
     (Inr (), \<lparr>name = ''t'', exists = True\<rparr>, c') \<and>
   journal c' =
     [Execute (CreateTable ''t'' [(''a'', ''INTEGER'', False)]) [],
      Execute SelectTableNames [],
      Execute (AlterTableAddColumn ''t'' ''b'' ''INTEGER'' ''other'' ''id'') [], Commit] \<and>
   (\<exists>td. map_of (pending c') ''t'' = Some td \<and>
      tcols td = [\<lparr>cname = ''a'', ctype = ''INTEGER'', cpk = False, cref = None\<rparr>,
                  \<lparr>cname = ''b'', ctype = ''INTEGER'', cpk = False, cref = Some (''other'', ''id'')\<rparr>])"
proof -
  let ?c = "\<lparr>pending = [(''other'', \<lparr>tcols = [\<lparr>cname = ''id'', ctype = ''INTEGER'', cpk = True, cref = None\<rparr>],
                               trows = []\<rparr>)],
        committed = [], journal = []\<rparr>"
  let ?self = "\<lparr>name = ''t'', exists = False\<rparr>"
  let ?fks = "[(''b'', ''INTEGER'', ''other'', ''id'')]"
  have ok: "fst (create ?self [(''a'', TInt), (''b'', TInt)] None (Some ?fks) ?c) = Inr ()"
    by (simp add: create_def create_table_def Table_def tables_def add_foreign_key_def engine_defs)
  then obtain h' c' where ev: "create ?self [(''a'', TInt), (''b'', TInt)] None (Some ?fks) ?c =
      (Inr (), h', c')"
    by (cases "create ?self [(''a'', TInt), (''b'', TInt)] None (Some ?fks) ?c") auto
  from create_handle_ok [OF ev] have h': "h' = \<lparr>name = ''t'', exists = True\<rparr>" by simp
  have fks: "?fks = (case Some ?fks of None \<Rightarrow> [] | Some l \<Rightarrow> l)" by simp
  note th = create_excludes_foreign_key_columns [of ?self "[(''a'', TInt), (''b'', TInt)]" None
      "Some ?fks" ?c "Inr ()" h' c' ?fks, THEN mp, OF conjI, OF ev fks]
  then obtain created rest td where
    j: "journal c' = journal ?c @ Execute (CreateTable (name ?self) created) [] # rest"
    and cr: "created = map (\<lambda>(n, t). (n, sql_type t, None = Some n))
                    (filter (\<lambda>(n, t). n \<notin> set (map fst ?fks)) [(''a'', TInt), (''b'', TInt)])"
    and rest: "rest = Execute SelectTableNames [] # foreign_key_calls (name ?self) ?fks"
    and td: "map_of (pending c') (name ?self) = Some td"
      "tcols td = map (\<lambda>(n, ty, p). \<lparr>cname = n, ctype = ty, cpk = p, cref = None\<rparr>) created @
                         map foreign_key_column ?fks"
    by blast
  from cr have cr': "created = [(''a'', ''INTEGER'', False)]" by simp
  from j rest have "journal c' =
     [Execute (CreateTable ''t'' [(''a'', ''INTEGER'', False)]) [],
      Execute SelectTableNames [],
      Execute (AlterTableAddColumn ''t'' ''b'' ''INTEGER'' ''other'' ''id'') [], Commit]"
    by (simp add: cr' foreign_key_calls_def)
  moreover from td have "map_of (pending c') ''t'' = Some td \<and>
      tcols td = [\<lparr>cname = ''a'', ctype = ''INTEGER'', cpk = False, cref = None\<rparr>,
                  \<lparr>cname = ''b'', ctype = ''INTEGER'', cpk = False, cref = Some (''other'', ''id'')\<rparr>]"
    by (simp add: cr' foreign_key_column_def)
  ultimately show ?thesis
    using ev h' by blast
qed

section \<open>The column list of a batch\<close>

lemma insert_chunks_calls:
  "insert_chunks self ups cols cs res c = (r, c') \<Longrightarrow>
     \<exists>new. journal c' = journal c @ new \<and>
       set new \<subseteq> insert Commit (insert_call ups (name self) cols ` set cs)"
proof (induction cs arbitrary: res c)
  case Nil
  then show ?case by simp
next
  case (Cons ch cs)
  let ?sql = "InsertInto ups (name self) cols (length ch)"
  let ?vals = "concat (map (\<lambda>record. map (\<lambda>key. dict_get record key) cols) ch)"
  obtain r1 c1 where e: "execute c ?sql ?vals = (r1, c1)" by (cases "execute c ?sql ?vals") auto
  have j1: "journal c1 = journal c @ [insert_call ups (name self) cols ch]"
    using execute_journal [of c ?sql ?vals] e by (simp add: insert_call_def)
  show ?case
  proof (cases r1)
    case (Inl err)
    with e Cons.prems have "c' = c1" by (simp add: insert_chunks_step)
    with j1 show ?thesis by simp
  next
    case (Inr cur)
    with e Cons.prems have rest: "insert_chunks self ups cols cs (Some cur) (commit c1) = (r, c')"
      by (simp add: insert_chunks_step)
    from Cons.IH [OF rest] obtain new where "journal c' = journal (commit c1) @ new"
      "set new \<subseteq> insert Commit (insert_call ups (name self) cols ` set cs)"
      by blast
    with j1 show ?thesis
      by (auto simp: commit_def)
  qed
qed

lemma foreign_key_calls_no_insert:
  "Execute (InsertInto u t cs n) ps \<notin> set (foreign_key_calls nm fks)"
  by (auto simp: foreign_key_calls_def)

lemma bind_rows_concat:
  "\<forall>row \<in> set rows. length row = w \<Longrightarrow> bind_rows w (length rows) (concat rows) = rows"
  by (induction rows) auto

lemma zip_map_same: "zip xs (map f xs) = map (\<lambda>x. (x, f x)) xs"
  by (induction xs) auto

lemma insert_all_calls:
  assumes "insert_all self records pk fks ups bs c = (r, self', c')"
  shows "\<exists>new. journal c' = journal c @ new \<and>
     (\<forall>u t cols n ps. Execute (InsertInto u t cols n) ps \<in> set new \<longrightarrow>
        (\<exists>cs chunk. chunks records bs = Inr cs \<and> chunk \<in> set cs \<and>
           Execute (InsertInto u t cols n) ps =
             insert_call ups (name self) (all_columns_of records) chunk))"
proof -
  define start where "start = (if \<not> exists self
      then create self (detect_column_types records) pk fks c else (Inr (), self, c))"
  obtain r0 self1 c1 where st: "start = (r0, self1, c1)" by (cases start) auto
  have nm: "name self1 = name self"
    using st create_handle [of self "detect_column_types records" pk fks c r0 self1 c1]
    by (auto simp: start_def split: if_splits)
  have j0: "\<exists>new. journal c1 = journal c @ new \<and>
      (\<forall>u t cols n ps. Execute (InsertInto u t cols n) ps \<notin> set new)"
  proof (cases "exists self")
    case True
    with st show ?thesis by (simp add: start_def)
  next
    case False
    with st have cr: "create self (detect_column_types records) pk fks c = (r0, self1, c1)"
      by (simp add: start_def)
    from create_journal [OF cr refl refl] obtain rest created fkl where
      j: "journal c1 = journal c @ Execute (CreateTable (name self) created) [] # rest"
      and p: "prefix rest (Execute SelectTableNames [] # foreign_key_calls (name self) fkl)"
      by blast
    from p have "set rest \<subseteq> set (Execute SelectTableNames [] # foreign_key_calls (name self) fkl)"
      by (rule set_mono_prefix)
    then have "Execute (InsertInto u t cols n) ps \<notin> set rest" for u t cols n ps
      using foreign_key_calls_no_insert [of u t cols n ps "name self" fkl] by auto
    with j show ?thesis by simp
  qed
  show ?thesis
  proof (cases r0)
    case (Inl e)
    with assms st have "c' = c1" by (simp add: insert_all_def start_def)
    with j0 show ?thesis by blast
  next
    case (Inr u0)
    show ?thesis
    proof (cases "chunks records bs")
      case (Inl e)
      with assms st Inr have "c' = c1" by (simp add: insert_all_def start_def)
      with j0 show ?thesis by blast
    next
      case cs: (Inr cs)
      obtain r2 c2 where ic: "insert_chunks self1 ups (all_columns_of records) cs None c1 = (r2, c2)"
        by (cases "insert_chunks self1 ups (all_columns_of records) cs None c1") auto
      with assms st Inr cs have c': "c' = c2"
        by (auto simp: insert_all_def start_def split: sum.splits option.splits)
      from insert_chunks_calls [OF ic] nm obtain new2 where n2: "journal c2 = journal c1 @ new2"
        "set new2 \<subseteq> insert Commit (insert_call ups (name self) (all_columns_of records) ` set cs)"
        by auto
      from j0 obtain new1 where n1: "journal c1 = journal c @ new1"
        "\<forall>u t cols n ps. Execute (InsertInto u t cols n) ps \<notin> set new1"
        by blast
      have "\<exists>chunk. chunk \<in> set cs \<and>
           Execute (InsertInto u t cols n) ps =
             insert_call ups (name self) (all_columns_of records) chunk"
        if "Execute (InsertInto u t cols n) ps \<in> set (new1 @ new2)" for u t cols n ps
        using that n1(2) n2(2) by auto
      with n1(1) n2(1) c' cs show ?thesis
        by (intro exI [of _ "new1 @ new2"]) auto
    qed
  qed
qed

text \<open>
  Claim C3. Every insert statement that a call of \<open>insert_all\<close> sends is the statement
  of one chunk of the batch: its policy and table are those of the call, its column
  list is the sorted union of the keys of all records of the whole input, whatever the
  chunk, and the rows that the engine binds from its parameters give, for every record
  of the chunk, a value to every column of that list: the value of the record, and null
  where the record lacks the key.
\<close>

theorem insert_all_unified_columns:
  "insert_all self records pk fks ups batch_size c = (r, self', c') \<and>
   Execute (InsertInto or_replace t cols n) params \<in> set (drop (length (journal c)) (journal c')) \<longrightarrow>
     or_replace = ups \<and> t = name self \<and>
     cols = sorted_list_of_set (\<Union>record \<in> set records. set (dict_keys record)) \<and>
     (\<exists>cs chunk. chunks records batch_size = Inr cs \<and> chunk \<in> set cs \<and> n = length chunk \<and>
        map (zip cols) (bind_rows (length cols) n params) =
          map (\<lambda>record. map (\<lambda>key. (key, case map_of record key of None \<Rightarrow> VNone | Some v \<Rightarrow> v)) cols)
            chunk)"
proof
  assume a: "insert_all self records pk fks ups batch_size c = (r, self', c') \<and>
   Execute (InsertInto or_replace t cols n) params \<in> set (drop (length (journal c)) (journal c'))"
  from insert_all_calls [of self records pk fks ups batch_size c r self' c'] a
  obtain new where n: "journal c' = journal c @ new"
    "\<forall>u t cols n ps. Execute (InsertInto u t cols n) ps \<in> set new \<longrightarrow>
        (\<exists>cs chunk. chunks records batch_size = Inr cs \<and> chunk \<in> set cs \<and>
           Execute (InsertInto u t cols n) ps =
             insert_call ups (name self) (all_columns_of records) chunk)"
    by blast
  from a n(1) have "Execute (InsertInto or_replace t cols n) params \<in> set new"
    by simp
  with n(2) obtain cs chunk where cs: "chunks records batch_size = Inr cs" "chunk \<in> set cs"
    and e: "Execute (InsertInto or_replace t cols n) params =
             insert_call ups (name self) (all_columns_of records) chunk"
    by blast
  from e have 1: "or_replace = ups" "t = name self" "cols = all_columns_of records" "n = length chunk"
    and p: "params = concat (map (\<lambda>record. map (\<lambda>key. dict_get record key) cols) chunk)"
    by (simp_all add: insert_call_def)
  have "bind_rows (length cols) (length (map (\<lambda>record. map (\<lambda>key. dict_get record key) cols) chunk))
      (concat (map (\<lambda>record. map (\<lambda>key. dict_get record key) cols) chunk)) =
      map (\<lambda>record. map (\<lambda>key. dict_get record key) cols) chunk"
    by (rule bind_rows_concat) simp
  then have "bind_rows (length cols) n params =
      map (\<lambda>record. map (\<lambda>key. dict_get record key) cols) chunk"
    using 1(4) p by simp
  then have "map (zip cols) (bind_rows (length cols) n params) =
          map (\<lambda>record. map (\<lambda>key. (key, case map_of record key of None \<Rightarrow> VNone | Some v \<Rightarrow> v)) cols)
            chunk"
    by (simp add: zip_map_same dict_get_def comp_def)
  with 1 cs show "or_replace = ups \<and> t = name self \<and>
     cols = sorted_list_of_set (\<Union>record \<in> set records. set (dict_keys record)) \<and>
     (\<exists>cs chunk. chunks records batch_size = Inr cs \<and> chunk \<in> set cs \<and> n = length chunk \<and>
        map (zip cols) (bind_rows (length cols) n params) =
          map (\<lambda>record. map (\<lambda>key. (key, case map_of record key of None \<Rightarrow> VNone | Some v \<Rightarrow> v)) cols)
            chunk)"
    by (auto simp: all_columns_of_union)
qed


text \<open>
  Witness for C3: two records with disjoint keys and a batch size of 1. The statement
  of the first chunk already lists both columns and binds null for the key that only
  the second record has.
\<close>

theorem insert_all_unified_columns_witness:
  "journal (snd (snd (insert_all \<lparr>name = ''t'', exists = False\<rparr>
       [[(''b'', VInt 2)], [(''a'', VInt 1)]] None None False 1
       \<lparr>pending = [], committed = [], journal = []\<rparr>))) =
     [Execute (CreateTable ''t'' [(''b'', ''INTEGER'', False), (''a'', ''INTEGER'', False)]) [],
      Execute SelectTableNames [],
      Execute (InsertInto False ''t'' [''a'', ''b''] 1) [VNone, VInt 2], Commit,
      Execute (InsertInto False ''t'' [''a'', ''b''] 1) [VInt 1, VNone], Commit] \<and>
   [''a'', ''b''] =
     sorted_list_of_set (\<Union>record \<in> set [[(''b'', VInt 2)], [(''a'', VInt 1)]]. set (dict_keys record)) \<and>
   (\<exists>chunk \<in> set [[[(''b'', VInt 2)]], [[(''a'', VInt 1)]]].
      map (zip [''a'', ''b'']) (bind_rows 2 1 [VNone, VInt 2]) =
        map (\<lambda>record. map (\<lambda>key. (key, case map_of record key of None \<Rightarrow> VNone | Some v \<Rightarrow> v))
               [''a'', ''b'']) chunk)"
proof -
  let ?self = "\<lparr>name = ''t'', exists = False\<rparr>"
  let ?rs = "[[(''b'', VInt 2)], [(''a'', VInt 1)]]"
  let ?c = "\<lparr>pending = [], committed = [], journal = []\<rparr>"
  let ?j = "[Execute (CreateTable ''t'' [(''b'', ''INTEGER'', False), (''a'', ''INTEGER'', False)]) [],
      Execute SelectTableNames [],
      Execute (InsertInto False ''t'' [''a'', ''b''] 1) [VNone, VInt 2], Commit,
      Execute (InsertInto False ''t'' [''a'', ''b''] 1) [VInt 1, VNone], Commit]"
  have j: "journal (snd (snd (insert_all ?self ?rs None None False 1 ?c))) = ?j"
    by (simp add: insert_all_def detect_column_types_def all_column_types_def reduce_types_def
          create_def create_table_def Table_def tables_def chunks_def range0_def
          all_columns_of_sort dict_keys_def engine_defs)
  obtain r self' c' where ev: "insert_all ?self ?rs None None False 1 ?c = (r, self', c')"
    by (cases "insert_all ?self ?rs None None False 1 ?c") auto
  with j have j': "journal c' = ?j" by simp
  have m: "Execute (InsertInto False ''t'' [''a'', ''b''] 1) [VNone, VInt 2] \<in>
      set (drop (length (journal ?c)) (journal c'))"
    by (simp add: j')
  have ch: "chunks ?rs 1 = Inr [[[(''b'', VInt 2)]], [[(''a'', VInt 1)]]]"
    by (simp add: chunks_def range0_def)
  note th = insert_all_unified_columns [of ?self ?rs None None False 1 ?c r self' c'
      False "''t''" "[''a'', ''b'']" 1 "[VNone, VInt 2]", THEN mp, OF conjI, OF ev m]
  then obtain cs chunk where
    1: "[''a'', ''b''] = sorted_list_of_set (\<Union>record \<in> set ?rs. set (dict_keys record))"
    and 2: "chunks ?rs 1 = Inr cs" "chunk \<in> set cs"
    and 3: "map (zip [''a'', ''b'']) (bind_rows (length [''a'', ''b'']) 1 [VNone, VInt 2]) =
        map (\<lambda>record. map (\<lambda>key. (key, case map_of record key of None \<Rightarrow> VNone | Some v \<Rightarrow> v))
               [''a'', ''b'']) chunk"
    by blast
  from 2 ch have "chunk \<in> set [[[(''b'', VInt 2)]], [[(''a'', VInt 1)]]]" by simp
  moreover from 3 have "map (zip [''a'', ''b'']) (bind_rows 2 1 [VNone, VInt 2]) =
        map (\<lambda>record. map (\<lambda>key. (key, case map_of record key of None \<Rightarrow> VNone | Some v \<Rightarrow> v))
               [''a'', ''b'']) chunk"
    by simp
  ultimately show ?thesis
    using j 1 by blast
qed

section \<open>The effect of insert statements\<close>














section \<open>The chunks of a list\<close>







section \<open>Batch sizes\<close>






section \<open>Upsert\<close>















end
